theory Spec2Isabelle
  imports Main "HOL-Library.AList" "HOL-Library.Sublist" "HOL-Library.Word"
begin

section \<open>The DDL operations of schrddl (ddl/ddl\_ops.go)\<close>

text \<open>
  A shallow embedding of the parts of \<^verbatim>\<open>ddl_ops.go\<close> that generate, order and apply
  DDL tasks. Go pointers are addresses into explicit stores, so that two tasks holding
  the same table, or an index holding the columns of its table, share what they point
  to. A Go \<^verbatim>\<open>error\<close> return is a value of \<open>error\<close>, a run-time panic a value of \<open>panic\<close>.
  Job ids are modelled by \<open>int\<close>: they come out of \<^verbatim>\<open>strconv.Atoi\<close>, whose range check is
  written out, and are only compared and stored. The index reference counter of a
  column, which the appliers increment and decrement, is the 64-bit \<^verbatim>\<open>int\<close> of Go as a
  \<open>64 word\<close>: \<open>-\<close> wraps around and \<open>sint\<close> reads the signed value that the comparisons of
  the source see. Locks, logging and timing are left out.
\<close>

subsection \<open>Kinds, errors and results\<close>

type_synonym ptr = nat

datatype DDLKind =
    ddlAddTable
  | ddlAddIndex
  | ddlAddColumn
  | ddlCreateSchema
  | ddlCreateView
  | ddlDropTable
  | ddlDropIndex
  | ddlDropColumn
  | ddlDropSchema
  | ddlRenameTable
  | ddlRenameIndex
  | ddlTruncateTable
  | ddlShardRowID
  | ddlRebaseAutoID
  | ddlSetDefaultValue
  | ddlModifyColumn
  | ddlModifyTableComment
  | ddlModifyTableCharsetAndCollate
  | ddlKindNil

definition mapOfDDLKind :: "string \<rightharpoonup> DDLKind" where
  "mapOfDDLKind = map_of
     [(''create schema'', ddlCreateSchema),
      (''create table'', ddlAddTable),
      (''add index'', ddlAddIndex),
      (''add column'', ddlAddColumn),
      (''drop schema'', ddlDropSchema),
      (''drop table'', ddlDropTable),
      (''drop index'', ddlDropIndex),
      (''drop column'', ddlDropColumn),
      (''create view'', ddlCreateView),
      (''rename table'', ddlRenameTable),
      (''rename index'', ddlRenameIndex),
      (''truncate table'', ddlTruncateTable),
      (''shard row ID'', ddlShardRowID),
      (''rebase auto_increment ID'', ddlRebaseAutoID),
      (''set default value'', ddlSetDefaultValue),
      (''modify table comment'', ddlModifyTableComment),
      (''modify table charset and collate'', ddlModifyTableCharsetAndCollate),
      (''modify column'', ddlModifyColumn)]"

text \<open>\<^verbatim>\<open>mapOfDDLKindToString\<close>; a kind outside the map prints as the empty string.\<close>

fun mapOfDDLKindToString :: "DDLKind \<Rightarrow> string" where
  "mapOfDDLKindToString ddlCreateSchema = ''create schema''"
| "mapOfDDLKindToString ddlAddTable = ''create table''"
| "mapOfDDLKindToString ddlAddIndex = ''add index''"
| "mapOfDDLKindToString ddlAddColumn = ''add column''"
| "mapOfDDLKindToString ddlDropSchema = ''drop schema''"
| "mapOfDDLKindToString ddlDropTable = ''drop table''"
| "mapOfDDLKindToString ddlDropIndex = ''drop index''"
| "mapOfDDLKindToString ddlDropColumn = ''drop column''"
| "mapOfDDLKindToString ddlCreateView = ''create view''"
| "mapOfDDLKindToString ddlRenameTable = ''rename table''"
| "mapOfDDLKindToString ddlRenameIndex = ''rename index''"
| "mapOfDDLKindToString ddlTruncateTable = ''truncate table''"
| "mapOfDDLKindToString ddlShardRowID = ''shard row ID''"
| "mapOfDDLKindToString ddlRebaseAutoID = ''rebase auto_increment ID''"
| "mapOfDDLKindToString ddlSetDefaultValue = ''set default value''"
| "mapOfDDLKindToString ddlModifyTableComment = ''modify table comment''"
| "mapOfDDLKindToString ddlModifyTableCharsetAndCollate = ''modify table charset and collate''"
| "mapOfDDLKindToString ddlModifyColumn = ''modify column''"
| "mapOfDDLKindToString ddlKindNil = ''''"

text \<open>
  One line of the listings that the order check prints: job id, database name, table
  name, job type, schema id, table id (and the job state, for a history row).
\<close>

type_synonym taskLine = "int \<times> string \<times> string \<times> string \<times> string \<times> string"
type_synonym jobLine = "int \<times> string \<times> string \<times> string \<times> string \<times> string \<times> string"

datatype panic = NilPointerDereference | IndexOutOfRange | BadJobArg | IntnArgument

text \<open>
  The errors the file builds with \<^verbatim>\<open>fmt.Errorf\<close>, by what their format strings carry.
  \<open>DBError\<close> stands for an error handed back by \<^verbatim>\<open>database/sql\<close>.
\<close>

datatype error =
    DBError string
  | NoEnoughColumn "string list"
  | NumError string
  | LinearizationFailure "jobLine list" "taskLine list" "taskLine list"
  | Divergence string "error option" "error option" string
  | RemoteError string error "string option"
  | LocalError string error "string option"
  | TableNotExists string
  | ColumnNotExists string string
  | IndexNotExists string string
  | UnexpectedIndexReference string
  | UnknownTask

datatype 'a res = Ok 'a | Err error | Panic panic

subsection \<open>The catalog and the tasks\<close>

text \<open>
  The declarations of \<^verbatim>\<open>ddlTestTable\<close>, \<^verbatim>\<open>ddlTestColumn\<close>, \<^verbatim>\<open>ddlTestIndex\<close>, \<^verbatim>\<open>ddlTestSchema\<close>
  and \<^verbatim>\<open>ddlTestView\<close> are outside this file; the records carry the fields that the
  functions below read and write. \<open>columns\<close> is the content of the table's array list,
  \<open>indexes\<close> the content of its slice.
\<close>

record ddlTestColumn =
  col_name :: string
  isPrimaryKey :: bool
  indexReferences :: "64 word"
  dependenciedCols :: "ptr list"
  col_deleted :: int

record ddlTestIndex =
  idx_name :: string
  signature :: string
  idx_columns :: "ptr list"

record ddlTestTable =
  tbl_name :: string
  tbl_id :: string
  columns :: "ptr list"
  indexes :: "ptr list"
  tbl_deleted :: int

record ddlTestSchema =
  schema_name :: string
  schema_id :: string
  schema_deleted :: bool

record ddlTestView =
  view_name :: string
  view_id :: string

datatype ddlTestAddDropColumnStrategy =
    ddlTestAddDropColumnStrategyBegin
  | ddlTestAddDropColumnStrategyAtBeginning
  | ddlTestAddDropColumnStrategyAtEnd
  | ddlTestAddDropColumnStrategyAtRandom
  | ddlTestAddDropColumnStrategyEnd

text \<open>
  \<^verbatim>\<open>ddlJobArg\<close> is an \<^verbatim>\<open>unsafe.Pointer\<close> that each applier casts to the struct its preparer
  stored. The variants are those structs: \<^verbatim>\<open>ddlIndexJobArg\<close>, \<^verbatim>\<open>ddlColumnJobArg\<close>, and
  \<open>ArgOther\<close> for the arguments of the kinds whose appliers are not modelled here. The
  column of a \<^verbatim>\<open>ddlColumnJobArg\<close> is set by every preparer that builds one; its original
  column and its insert-after column are nil for some of them.
\<close>

datatype ddlJobArg =
    ArgNil
  | IndexJobArg (arg_index: "ptr option")
  | ColumnJobArg (origColumnIndex: int) (origColumn: "ptr option") (arg_column: ptr)
      (arg_strategy: ddlTestAddDropColumnStrategy) (insertAfterColumn: "ptr option")
  | ArgOther

record ddlJob =
  job_id :: int
  job_schemaName :: string
  job_tableName :: string
  job_k :: DDLKind
  job_jobState :: string
  job_tableID :: string
  job_schemaID :: string

record ddlJobTask =
  ddlID :: int
  task_k :: DDLKind
  tblInfo :: "ptr option"
  schemaInfo :: "ptr option"
  viewInfo :: "ptr option"
  task_sql :: string
  task_arg :: ddlJobArg
  task_err :: "error option"

text \<open>
  The preparers, as the values stored in the registry \<^verbatim>\<open>c.ddlOps\<close>; an executor is the
  struct literal \<^verbatim>\<open>ddlTestOpExecutor{preparer, nil, kind}\<close>.
\<close>

datatype preparer =
    fn_prepareCreateSchema
  | fn_prepareDropSchema
  | fn_prepareAddTable
  | fn_prepareRenameTable
  | fn_prepareTruncateTable
  | fn_prepareModifyTableComment
  | fn_prepareModifyTableCharsetAndCollate
  | fn_prepareShardRowID
  | fn_prepareRebaseAutoID
  | fn_prepareDropTable
  | fn_prepareCreateView
  | fn_prepareAddIndex
  | fn_prepareRenameIndex
  | fn_prepareDropIndex
  | fn_prepareAddColumn
  | fn_prepareModifyColumn
  | fn_prepareDropColumn
  | fn_prepareSetDefaultValue

record ddlTestOpExecutor =
  executeFunc :: preparer
  ddlKind :: DDLKind

text \<open>
  The test case with the objects reachable from it. \<open>tables\<close> is the map \<^verbatim>\<open>c.tables\<close> as
  the list of its entries, so that \<^verbatim>\<open>len(c.tables)\<close> is its length; \<open>schemas\<close> and \<open>views\<close>
  are only stored into.
\<close>

record testCase =
  taskH :: "ptr \<Rightarrow> ddlJobTask"
  tblH :: "ptr \<Rightarrow> ddlTestTable"
  colH :: "ptr \<Rightarrow> ddlTestColumn"
  idxH :: "ptr \<Rightarrow> ddlTestIndex"
  schemaH :: "ptr \<Rightarrow> ddlTestSchema"
  viewH :: "ptr \<Rightarrow> ddlTestView"
  tables :: "(string \<times> ptr) list"
  schemas :: "string \<rightharpoonup> ptr"
  views :: "string \<rightharpoonup> ptr"
  ddlOps :: "ddlTestOpExecutor list"
  lastDDLID :: int
  initDB :: string

subsection \<open>The registry: generateDDLOps\<close>

definition generateCreateSchema :: "testCase \<Rightarrow> testCase" where
  "generateCreateSchema c =
     c\<lparr>ddlOps := ddlOps c @ [\<lparr>executeFunc = fn_prepareCreateSchema, ddlKind = ddlCreateSchema\<rparr>]\<rparr>"

definition generateDropSchema :: "testCase \<Rightarrow> testCase" where
  "generateDropSchema c =
     c\<lparr>ddlOps := ddlOps c @ [\<lparr>executeFunc = fn_prepareDropSchema, ddlKind = ddlDropSchema\<rparr>]\<rparr>"

definition generateAddTable :: "testCase \<Rightarrow> testCase" where
  "generateAddTable c =
     c\<lparr>ddlOps := ddlOps c @ [\<lparr>executeFunc = fn_prepareAddTable, ddlKind = ddlAddTable\<rparr>]\<rparr>"

definition generateRenameTable :: "testCase \<Rightarrow> testCase" where
  "generateRenameTable c =
     c\<lparr>ddlOps := ddlOps c @ [\<lparr>executeFunc = fn_prepareRenameTable, ddlKind = ddlRenameTable\<rparr>]\<rparr>"

definition generateTruncateTable :: "testCase \<Rightarrow> testCase" where
  "generateTruncateTable c =
     c\<lparr>ddlOps := ddlOps c @ [\<lparr>executeFunc = fn_prepareTruncateTable, ddlKind = ddlTruncateTable\<rparr>]\<rparr>"

definition generateModifyTableComment :: "testCase \<Rightarrow> testCase" where
  "generateModifyTableComment c =
     c\<lparr>ddlOps := ddlOps c @
        [\<lparr>executeFunc = fn_prepareModifyTableComment, ddlKind = ddlModifyTableComment\<rparr>]\<rparr>"

definition generateModifyTableCharsetAndCollate :: "testCase \<Rightarrow> testCase" where
  "generateModifyTableCharsetAndCollate c =
     c\<lparr>ddlOps := ddlOps c @
        [\<lparr>executeFunc = fn_prepareModifyTableCharsetAndCollate,
          ddlKind = ddlModifyTableCharsetAndCollate\<rparr>]\<rparr>"

definition generateShardRowID :: "testCase \<Rightarrow> testCase" where
  "generateShardRowID c =
     c\<lparr>ddlOps := ddlOps c @ [\<lparr>executeFunc = fn_prepareShardRowID, ddlKind = ddlShardRowID\<rparr>]\<rparr>"

definition generateRebaseAutoID :: "testCase \<Rightarrow> testCase" where
  "generateRebaseAutoID c =
     c\<lparr>ddlOps := ddlOps c @ [\<lparr>executeFunc = fn_prepareRebaseAutoID, ddlKind = ddlRebaseAutoID\<rparr>]\<rparr>"

definition generateDropTable :: "testCase \<Rightarrow> testCase" where
  "generateDropTable c =
     c\<lparr>ddlOps := ddlOps c @ [\<lparr>executeFunc = fn_prepareDropTable, ddlKind = ddlDropTable\<rparr>]\<rparr>"

definition generateCreateView :: "testCase \<Rightarrow> testCase" where
  "generateCreateView c =
     c\<lparr>ddlOps := ddlOps c @ [\<lparr>executeFunc = fn_prepareCreateView, ddlKind = ddlCreateView\<rparr>]\<rparr>"

definition generateAddIndex :: "testCase \<Rightarrow> testCase" where
  "generateAddIndex c =
     c\<lparr>ddlOps := ddlOps c @ [\<lparr>executeFunc = fn_prepareAddIndex, ddlKind = ddlAddIndex\<rparr>]\<rparr>"

definition generateRenameIndex :: "testCase \<Rightarrow> testCase" where
  "generateRenameIndex c =
     c\<lparr>ddlOps := ddlOps c @ [\<lparr>executeFunc = fn_prepareRenameIndex, ddlKind = ddlRenameIndex\<rparr>]\<rparr>"

definition generateDropIndex :: "testCase \<Rightarrow> testCase" where
  "generateDropIndex c =
     c\<lparr>ddlOps := ddlOps c @ [\<lparr>executeFunc = fn_prepareDropIndex, ddlKind = ddlDropIndex\<rparr>]\<rparr>"

definition generateAddColumn :: "testCase \<Rightarrow> testCase" where
  "generateAddColumn c =
     c\<lparr>ddlOps := ddlOps c @ [\<lparr>executeFunc = fn_prepareAddColumn, ddlKind = ddlAddColumn\<rparr>]\<rparr>"

definition generateModifyColumn :: "testCase \<Rightarrow> testCase" where
  "generateModifyColumn c =
     c\<lparr>ddlOps := ddlOps c @ [\<lparr>executeFunc = fn_prepareModifyColumn, ddlKind = ddlModifyColumn\<rparr>]\<rparr>"

definition generateDropColumn :: "testCase \<Rightarrow> testCase" where
  "generateDropColumn c =
     c\<lparr>ddlOps := ddlOps c @ [\<lparr>executeFunc = fn_prepareDropColumn, ddlKind = ddlDropColumn\<rparr>]\<rparr>"

definition generateSetDefaultValue :: "testCase \<Rightarrow> testCase" where
  "generateSetDefaultValue c =
     c\<lparr>ddlOps := ddlOps c @
        [\<lparr>executeFunc = fn_prepareSetDefaultValue, ddlKind = ddlSetDefaultValue\<rparr>]\<rparr>"

text \<open>
  Every \<^verbatim>\<open>generate...\<close> returns a nil error, so the error checks between the calls of
  \<^verbatim>\<open>generateDDLOps\<close> never leave early and the function is the sequence of the appends.
\<close>

definition generateDDLOps :: "testCase \<Rightarrow> testCase" where
  "generateDDLOps c =
     (let c = generateCreateSchema c;
          c = generateDropSchema c;
          c = generateAddTable c;
          c = generateRenameTable c;
          c = generateTruncateTable c;
          c = generateModifyTableComment c;
          c = generateModifyTableCharsetAndCollate c;
          c = generateShardRowID c;
          c = generateRebaseAutoID c;
          c = generateDropTable c;
          c = generateCreateView c;
          c = generateAddIndex c;
          c = generateRenameIndex c;
          c = generateDropIndex c;
          c = generateAddColumn c;
          c = generateModifyColumn c;
          c = generateDropColumn c;
          c = generateSetDefaultValue c
      in c)"

text \<open>
  Modelled from the spec: the generation round, whose loop is not in this file. It
  iterates the registry in order and flips one coin per entry (\<open>coins\<close>, the outcomes of
  the weighted draws); the result lists the preparers it calls, in the order of the calls.
\<close>

fun generationPass :: "bool list \<Rightarrow> ddlTestOpExecutor list \<Rightarrow> ddlTestOpExecutor list" where
  "generationPass coins [] = []"
| "generationPass [] (op # ops) = []"
| "generationPass (coin # coins) (op # ops) =
     (if coin then op # generationPass coins ops else generationPass coins ops)"

text \<open>The order in which the weight table of the specification lists the kinds.\<close>

definition weightTableOrder :: "DDLKind list" where
  "weightTableOrder =
     [ddlAddTable, ddlDropTable, ddlAddIndex, ddlDropIndex, ddlAddColumn, ddlModifyColumn,
      ddlDropColumn, ddlCreateView, ddlCreateSchema, ddlDropSchema, ddlRenameTable,
      ddlRenameIndex, ddlTruncateTable, ddlShardRowID, ddlRebaseAutoID, ddlSetDefaultValue,
      ddlModifyTableComment, ddlModifyTableCharsetAndCollate]"

text \<open>
  The executors that \<^verbatim>\<open>generateDDLOps\<close> registers, each kind with the preparer of that
  kind, and the order in which it registers the kinds.
\<close>

definition registryEntries :: "ddlTestOpExecutor list" where
  "registryEntries =
     [\<lparr>executeFunc = fn_prepareCreateSchema, ddlKind = ddlCreateSchema\<rparr>,
      \<lparr>executeFunc = fn_prepareDropSchema, ddlKind = ddlDropSchema\<rparr>,
      \<lparr>executeFunc = fn_prepareAddTable, ddlKind = ddlAddTable\<rparr>,
      \<lparr>executeFunc = fn_prepareRenameTable, ddlKind = ddlRenameTable\<rparr>,
      \<lparr>executeFunc = fn_prepareTruncateTable, ddlKind = ddlTruncateTable\<rparr>,
      \<lparr>executeFunc = fn_prepareModifyTableComment, ddlKind = ddlModifyTableComment\<rparr>,
      \<lparr>executeFunc = fn_prepareModifyTableCharsetAndCollate,
       ddlKind = ddlModifyTableCharsetAndCollate\<rparr>,
      \<lparr>executeFunc = fn_prepareShardRowID, ddlKind = ddlShardRowID\<rparr>,
      \<lparr>executeFunc = fn_prepareRebaseAutoID, ddlKind = ddlRebaseAutoID\<rparr>,
      \<lparr>executeFunc = fn_prepareDropTable, ddlKind = ddlDropTable\<rparr>,
      \<lparr>executeFunc = fn_prepareCreateView, ddlKind = ddlCreateView\<rparr>,
      \<lparr>executeFunc = fn_prepareAddIndex, ddlKind = ddlAddIndex\<rparr>,
      \<lparr>executeFunc = fn_prepareRenameIndex, ddlKind = ddlRenameIndex\<rparr>,
      \<lparr>executeFunc = fn_prepareDropIndex, ddlKind = ddlDropIndex\<rparr>,
      \<lparr>executeFunc = fn_prepareAddColumn, ddlKind = ddlAddColumn\<rparr>,
      \<lparr>executeFunc = fn_prepareModifyColumn, ddlKind = ddlModifyColumn\<rparr>,
      \<lparr>executeFunc = fn_prepareDropColumn, ddlKind = ddlDropColumn\<rparr>,
      \<lparr>executeFunc = fn_prepareSetDefaultValue, ddlKind = ddlSetDefaultValue\<rparr>]"

definition registryOrder :: "DDLKind list" where
  "registryOrder =
     [ddlCreateSchema, ddlDropSchema, ddlAddTable, ddlRenameTable, ddlTruncateTable,
      ddlModifyTableComment, ddlModifyTableCharsetAndCollate, ddlShardRowID, ddlRebaseAutoID,
      ddlDropTable, ddlCreateView, ddlAddIndex, ddlRenameIndex, ddlDropIndex, ddlAddColumn,
      ddlModifyColumn, ddlDropColumn, ddlSetDefaultValue]"

subsection \<open>The history of DDL jobs: getHistoryDDLJobs\<close>

text \<open>
  \<^verbatim>\<open>strconv.Atoi\<close> of the standard library, on a 64-bit \<^verbatim>\<open>int\<close>: an optional sign, then
  at least one decimal digit and nothing else, the value inside the range of \<^verbatim>\<open>int\<close>;
  for any other string the result is its \<^verbatim>\<open>*NumError\<close>.
\<close>

definition isDigit :: "char \<Rightarrow> bool" where
  "isDigit ch = (48 \<le> (of_char ch :: nat) \<and> (of_char ch :: nat) \<le> 57)"

definition digitsValue :: "string \<Rightarrow> nat" where
  "digitsValue ds = foldl (\<lambda>n ch. n * 10 + ((of_char ch :: nat) - 48)) 0 ds"

definition Atoi :: "string \<Rightarrow> error + int" where
  "Atoi s =
     (case s of
        [] \<Rightarrow> Inl (NumError s)
      | ch # rest \<Rightarrow>
          (let neg = (ch = CHR ''-'');
               ds = (if ch = CHR ''-'' \<or> ch = CHR ''+'' then rest else s)
           in if ds = [] \<or> \<not> list_all isDigit ds then Inl (NumError s)
              else (let n = int (digitsValue ds);
                        v = (if neg then - n else n)
                    in if v < - (2 ^ 63) \<or> 2 ^ 63 - 1 < v then Inl (NumError s)
                       else Inr v)))"

text \<open>
  The loop over the rows read from \<^verbatim>\<open>admin show ddl jobs\<close>. The length check admits a
  row of nine fields; the struct literal then reads \<^verbatim>\<open>row[9]\<close>, which Go answers with an
  index-out-of-range panic when the row has no tenth field.
\<close>

fun parseRows :: "int \<Rightarrow> string list list \<Rightarrow> ddlJob list \<Rightarrow> ddlJob list res" where
  "parseRows lastID [] jobs = Ok jobs"
| "parseRows lastID (row # rows) jobs =
     (if length row < 9 then Err (NoEnoughColumn row)
      else (case Atoi (row ! 0) of
              Inl e \<Rightarrow> Err e
            | Inr i \<Rightarrow>
                if i \<le> lastID then parseRows lastID rows jobs
                else (case mapOfDDLKind (row ! 3) of
                        None \<Rightarrow> parseRows lastID rows jobs
                      | Some kind \<Rightarrow>
                          if length row \<le> 9 then Panic IndexOutOfRange
                          else parseRows lastID rows
                                 (jobs @
                                  [\<lparr>job_id = i, job_schemaName = row ! 1,
                                    job_tableName = row ! 2, job_k = kind,
                                    job_jobState = row ! 9, job_tableID = row ! 6,
                                    job_schemaID = row ! 5\<rparr>]))))"

text \<open>
  The query and the scan of its rows are the database's: \<open>answer\<close> is either the error
  they ended with (\<^verbatim>\<open>db.Query\<close>, \<^verbatim>\<open>rows.Columns\<close>, \<^verbatim>\<open>rows.Scan\<close>, \<^verbatim>\<open>rows.Err\<close>) or all the
  rows, NULL fields already replaced by the string NULL.
\<close>

definition getHistoryDDLJobs :: "error + string list list \<Rightarrow> testCase \<Rightarrow> ddlJob list res" where
  "getHistoryDDLJobs answer c =
     (case answer of
        Inl e \<Rightarrow> Err e
      | Inr actualRows \<Rightarrow> parseRows (lastDDLID c) actualRows [])"

subsection \<open>The order of a batch: getSortTask\<close>

definition jobLine :: "ddlJob \<Rightarrow> jobLine" where
  "jobLine job =
     (job_id job, job_schemaName job, job_tableName job, mapOfDDLKindToString (job_k job),
      job_schemaID job, job_tableID job, job_jobState job)"

text \<open>The line printed for a task; a task with no table, schema or view prints none.\<close>

definition taskLines :: "testCase \<Rightarrow> ptr \<Rightarrow> taskLine list" where
  "taskLines c t =
     (let task = taskH c t in
      case tblInfo task of
        Some p \<Rightarrow>
          [(ddlID task, initDB c, tbl_name (tblH c p), mapOfDDLKindToString (task_k task),
            ''_'', tbl_id (tblH c p))]
      | None \<Rightarrow>
          (case schemaInfo task of
             Some p \<Rightarrow>
               [(ddlID task, schema_name (schemaH c p), [],
                 mapOfDDLKindToString (task_k task), schema_id (schemaH c p), [])]
           | None \<Rightarrow>
               (case viewInfo task of
                  Some p \<Rightarrow>
                    [(ddlID task, initDB c, view_name (viewH c p),
                      mapOfDDLKindToString (task_k task), ''_'', view_id (viewH c p))]
                | None \<Rightarrow> [])))"

definition setDDLID :: "ptr \<Rightarrow> int \<Rightarrow> testCase \<Rightarrow> testCase" where
  "setDDLID t i c = c\<lparr>taskH := (taskH c)(t := (taskH c t)\<lparr>ddlID := i\<rparr>)\<rparr>"

definition setTableID :: "ptr \<Rightarrow> string \<Rightarrow> testCase \<Rightarrow> testCase" where
  "setTableID p s c = c\<lparr>tblH := (tblH c)(p := (tblH c p)\<lparr>tbl_id := s\<rparr>)\<rparr>"

definition setSchemaID :: "ptr \<Rightarrow> string \<Rightarrow> testCase \<Rightarrow> testCase" where
  "setSchemaID p s c = c\<lparr>schemaH := (schemaH c)(p := (schemaH c p)\<lparr>schema_id := s\<rparr>)\<rparr>"

definition setViewID :: "ptr \<Rightarrow> string \<Rightarrow> testCase \<Rightarrow> testCase" where
  "setViewID p s c = c\<lparr>viewH := (viewH c)(p := (viewH c p)\<lparr>view_id := s\<rparr>)\<rparr>"

text \<open>
  The body of the inner loop of \<^verbatim>\<open>getSortTask\<close> for one job and one task: its four \<^verbatim>\<open>if\<close>
  statements in their order, each falling through to the next when its condition
  fails. The result says whether the body left the loop with \<^verbatim>\<open>break\<close>, and gives the
  list \<^verbatim>\<open>sortTasks\<close> and the stores after the body. The last two branches of the fourth
  statement append the task and go on with the next task.
\<close>

definition ifSameKind :: "ddlJob \<Rightarrow> ptr \<Rightarrow> ptr list \<Rightarrow> testCase \<Rightarrow> (bool \<times> ptr list \<times> testCase) res" where
  "ifSameKind job t sortTasks c =
     (let task = taskH c t in
      if task_k task \<noteq> ddlAddTable \<and> job_k job = task_k task then
        (if (case tblInfo task of None \<Rightarrow> False | Some p \<Rightarrow> tbl_id (tblH c p) = job_tableID job)
         then Ok (True, sortTasks @ [t], setDDLID t (job_id job) c)
         else if (case viewInfo task of None \<Rightarrow> False
                  | Some p \<Rightarrow> view_id (viewH c p) = job_tableID job)
         then Ok (False, sortTasks @ [t], setDDLID t (job_id job) c)
         else if (case schemaInfo task of None \<Rightarrow> False
                  | Some p \<Rightarrow> schema_id (schemaH c p) = job_schemaID job)
         then Ok (False, sortTasks @ [t], setDDLID t (job_id job) c)
         else Ok (False, sortTasks, c))
      else Ok (False, sortTasks, c))"

definition ifCreateView :: "ddlJob \<Rightarrow> ptr \<Rightarrow> ptr list \<Rightarrow> testCase \<Rightarrow> (bool \<times> ptr list \<times> testCase) res" where
  "ifCreateView job t sortTasks c =
     (let task = taskH c t in
      if task_k task = ddlCreateView \<and> job_k job = ddlCreateView then
        (case viewInfo task of
           None \<Rightarrow> Panic NilPointerDereference
         | Some p \<Rightarrow>
             if view_name (viewH c p) = job_tableName job
             then Ok (True, sortTasks @ [t],
                      setViewID p (job_tableID job) (setDDLID t (job_id job) c))
             else ifSameKind job t sortTasks c)
      else ifSameKind job t sortTasks c)"

definition ifCreateSchema :: "ddlJob \<Rightarrow> ptr \<Rightarrow> ptr list \<Rightarrow> testCase \<Rightarrow> (bool \<times> ptr list \<times> testCase) res" where
  "ifCreateSchema job t sortTasks c =
     (let task = taskH c t in
      if task_k task = ddlCreateSchema \<and> job_k job = ddlCreateSchema then
        (case schemaInfo task of
           None \<Rightarrow> Panic NilPointerDereference
         | Some p \<Rightarrow>
             if schema_name (schemaH c p) = job_schemaName job
             then Ok (True, sortTasks @ [t],
                      setSchemaID p (job_schemaID job) (setDDLID t (job_id job) c))
             else ifCreateView job t sortTasks c)
      else ifCreateView job t sortTasks c)"

definition ifAddTable :: "ddlJob \<Rightarrow> ptr \<Rightarrow> ptr list \<Rightarrow> testCase \<Rightarrow> (bool \<times> ptr list \<times> testCase) res" where
  "ifAddTable job t sortTasks c =
     (let task = taskH c t in
      if task_k task = ddlAddTable \<and> job_k job = ddlAddTable then
        (case tblInfo task of
           None \<Rightarrow> Panic NilPointerDereference
         | Some p \<Rightarrow>
             if tbl_name (tblH c p) = job_tableName job
             then Ok (True, sortTasks @ [t],
                      setTableID p (job_tableID job) (setDDLID t (job_id job) c))
             else ifCreateSchema job t sortTasks c)
      else ifCreateSchema job t sortTasks c)"

text \<open>The inner loop: the tasks of the batch, in their order, against one job.\<close>

fun matchTasks :: "ddlJob \<Rightarrow> ptr list \<Rightarrow> ptr list \<Rightarrow> testCase \<Rightarrow> (ptr list \<times> testCase) res" where
  "matchTasks job [] sortTasks c = Ok (sortTasks, c)"
| "matchTasks job (t # ts) sortTasks c =
     (case ifAddTable job t sortTasks c of
        Panic x \<Rightarrow> Panic x
      | Err e \<Rightarrow> Err e
      | Ok (brk, sortTasks', c') \<Rightarrow>
          if brk then Ok (sortTasks', c') else matchTasks job ts sortTasks' c')"

text \<open>
  The outer loop: the jobs in the order of the history, left as soon as \<^verbatim>\<open>sortTasks\<close> is
  as long as the batch.
\<close>

fun sortLoop :: "ddlJob list \<Rightarrow> ptr list \<Rightarrow> ptr list \<Rightarrow> testCase \<Rightarrow> (ptr list \<times> testCase) res" where
  "sortLoop [] tasks sortTasks c = Ok (sortTasks, c)"
| "sortLoop (job # jobs) tasks sortTasks c =
     (case matchTasks job tasks sortTasks c of
        Panic x \<Rightarrow> Panic x
      | Err e \<Rightarrow> Err e
      | Ok (sortTasks', c') \<Rightarrow>
          if length sortTasks' = length tasks then Ok (sortTasks', c')
          else sortLoop jobs tasks sortTasks' c')"

text \<open>
  \<^verbatim>\<open>getSortTask\<close>. \<^verbatim>\<open>sort.Sort\<close> of the standard library orders the slice by \<^verbatim>\<open>Less\<close>, here by
  \<^verbatim>\<open>ddlID\<close> read through the task pointers; it promises no order among equal ids, and
  \<open>sort_key\<close> is one sort that meets its contract. The stores are returned with an error
  too: the ids stamped before the error stay.
\<close>

definition getSortTask :: "error + string list list \<Rightarrow> ptr list \<Rightarrow> testCase \<Rightarrow> ptr list res \<times> testCase" where
  "getSortTask answer tasks c =
     (case getHistoryDDLJobs answer c of
        Err e \<Rightarrow> (Err e, c)
      | Panic x \<Rightarrow> (Panic x, c)
      | Ok jobs \<Rightarrow>
          (case sortLoop jobs tasks [] c of
             Panic x \<Rightarrow> (Panic x, c)
           | Err e \<Rightarrow> (Err e, c)
           | Ok (sortTasks, c1) \<Rightarrow>
               if length sortTasks \<noteq> length tasks
               then (Err (LinearizationFailure (map jobLine jobs)
                            (concat (map (taskLines c1) tasks))
                            (concat (map (taskLines c1) sortTasks))), c1)
               else (let sorted = sort_key (\<lambda>t. ddlID (taskH c1 t)) sortTasks
                     in (Ok sorted,
                         if 0 < length sorted
                         then c1\<lparr>lastDDLID := ddlID (taskH c1 (last sorted))\<rparr>
                         else c1))))"

subsection \<open>Collaborators outside this file\<close>

text \<open>
  Functions that the file calls and that are defined elsewhere. The ones whose answer
  the file only tests or passes on are parameters, collected in \<open>env\<close>: the
  classification of ignorable errors, the deletion checks of the appliers, the text of
  the debug dump of a table, and the appliers of the kinds that are not modelled below.
\<close>

record env =
  ddlIgnoreError :: "error option \<Rightarrow> bool"
  isTableDeleted :: "testCase \<Rightarrow> ptr \<Rightarrow> bool"
  isColumnDeleted :: "testCase \<Rightarrow> ptr \<Rightarrow> ptr \<Rightarrow> bool"
  tableDump :: "testCase \<Rightarrow> ptr \<Rightarrow> string"
  otherJobs :: "ptr \<Rightarrow> testCase \<Rightarrow> unit res \<times> testCase"

text \<open>
  The array list of \<^verbatim>\<open>github.com/emirpasic/gods\<close>: \<^verbatim>\<open>Remove\<close> does nothing for an index
  outside the list; \<^verbatim>\<open>Insert\<close> shifts the elements from the index on to the right,
  appends when the index is the size, and does nothing for any other index.
\<close>

definition arraylistRemove :: "int \<Rightarrow> 'a list \<Rightarrow> 'a list" where
  "arraylistRemove i xs =
     (if 0 \<le> i \<and> i < int (length xs) then take (nat i) xs @ drop (nat i + 1) xs else xs)"

definition arraylistInsert :: "int \<Rightarrow> 'a \<Rightarrow> 'a list \<Rightarrow> 'a list" where
  "arraylistInsert i v xs =
     (if 0 \<le> i \<and> i < int (length xs) then take (nat i) xs @ v # drop (nat i) xs
      else if i = int (length xs) then xs @ [v]
      else xs)"

definition arraylistAdd :: "'a \<Rightarrow> 'a list \<Rightarrow> 'a list" where
  "arraylistAdd v xs = xs @ [v]"

text \<open>
  A search loop of the form \<^verbatim>\<open>for i := ...; if found { pos = i; break }\<close>: the position of
  the first element that satisfies the test, counted from \<open>i\<close>, or \<open>none\<close>, the value the
  variable had before the loop.
\<close>

fun searchFrom :: "('a \<Rightarrow> bool) \<Rightarrow> 'a list \<Rightarrow> int \<Rightarrow> int \<Rightarrow> int" where
  "searchFrom P [] i none = none"
| "searchFrom P (x # xs) i none = (if P x then i else searchFrom P xs (i + 1) none)"

text \<open>
  Modelled from the spec: the tombstone flags and their setters (\<^verbatim>\<open>setDeleted\<close>,
  \<^verbatim>\<open>isDeleted\<close>), which are defined outside this file. The flag of a table is the integer
  that \<^verbatim>\<open>prepareAddTable\<close> initialises with 0; setting it is idempotent.
\<close>

definition table_setDeleted :: "ptr \<Rightarrow> testCase \<Rightarrow> testCase" where
  "table_setDeleted p c = c\<lparr>tblH := (tblH c)(p := (tblH c p)\<lparr>tbl_deleted := 1\<rparr>)\<rparr>"

definition table_isDeleted :: "testCase \<Rightarrow> ptr \<Rightarrow> bool" where
  "table_isDeleted c p = (tbl_deleted (tblH c p) \<noteq> 0)"

definition column_setDeleted :: "ptr \<Rightarrow> testCase \<Rightarrow> testCase" where
  "column_setDeleted p c = c\<lparr>colH := (colH c)(p := (colH c p)\<lparr>col_deleted := 1\<rparr>)\<rparr>"

definition column_isDeleted :: "testCase \<Rightarrow> ptr \<Rightarrow> bool" where
  "column_isDeleted c p = (col_deleted (colH c p) \<noteq> 0)"

text \<open>
  Modelled from the spec: \<^verbatim>\<open>pickupRandomTable\<close>, defined outside this file: uniform over
  the live tables, nothing if there is none. \<open>r\<close> is the random draw; it selects among
  the live entries of \<^verbatim>\<open>c.tables\<close>.
\<close>

definition liveTables :: "testCase \<Rightarrow> ptr list" where
  "liveTables c = filter (\<lambda>p. \<not> table_isDeleted c p) (map snd (tables c))"

definition pickupRandomTable :: "nat \<Rightarrow> testCase \<Rightarrow> ptr option" where
  "pickupRandomTable r c =
     (let live = liveTables c
      in if live = [] then None else Some (live ! (r mod length live)))"

text \<open>
  Modelled from the spec: \<^verbatim>\<open>filterColumns\<close> and \<^verbatim>\<open>predicateAll\<close>, defined outside this file:
  the columns of the table that satisfy the predicate and are live (not tombstoned), in
  their order; \<^verbatim>\<open>predicateAll\<close> accepts every column.
\<close>

definition filterColumns :: "(ptr \<Rightarrow> bool) \<Rightarrow> testCase \<Rightarrow> ptr \<Rightarrow> ptr list" where
  "filterColumns predicate c p =
     filter (\<lambda>col. predicate col \<and> \<not> column_isDeleted c col) (columns (tblH c p))"

definition predicateAll :: "ptr \<Rightarrow> bool" where
  "predicateAll col = True"

text \<open>
  Modelled from the spec: \<^verbatim>\<open>hasGenerateCol\<close>, defined outside this file: the column has
  dependents, that is, \<^verbatim>\<open>dependenciedCols\<close> is not empty.
\<close>

definition hasGenerateCol :: "testCase \<Rightarrow> ptr \<Rightarrow> bool" where
  "hasGenerateCol c col = (dependenciedCols (colH c col) \<noteq> [])"

text \<open>
  Modelled from the spec: \<^verbatim>\<open>getColumnFromArrayList\<close>, defined outside this file: the column
  at a position of the ordered column sequence. The callers below pass an index inside
  the list; outside it there is no column to return, which the model answers with a
  panic.
\<close>

definition getColumnFromArrayList :: "ptr list \<Rightarrow> int \<Rightarrow> ptr res" where
  "getColumnFromArrayList cols i =
     (if 0 \<le> i \<and> i < int (length cols) then Ok (cols ! nat i) else Panic IndexOutOfRange)"

text \<open>
  Modelled from the spec: \<^verbatim>\<open>debugPrintToString\<close>, defined outside this file: the debug dump
  of the affected table. The dump is made of the name, the columns and the rows of the
  table behind its receiver, so on a nil receiver it is a nil dereference; the text it
  prints for a table is left to \<open>env\<close>.
\<close>

definition debugPrintToString :: "env \<Rightarrow> testCase \<Rightarrow> ptr option \<Rightarrow> string res" where
  "debugPrintToString e c receiver =
     (case receiver of
        None \<Rightarrow> Panic NilPointerDereference
      | Some p \<Rightarrow> Ok (tableDump e c p))"

subsection \<open>Appliers\<close>

definition createSchemaJob :: "ptr \<Rightarrow> testCase \<Rightarrow> unit res \<times> testCase" where
  "createSchemaJob t c =
     (case schemaInfo (taskH c t) of
        None \<Rightarrow> (Panic NilPointerDereference, c)
      | Some p \<Rightarrow> (Ok (), c\<lparr>schemas := (schemas c)(schema_name (schemaH c p) \<mapsto> p)\<rparr>))"

definition addTableInfo :: "ptr \<Rightarrow> testCase \<Rightarrow> unit res \<times> testCase" where
  "addTableInfo t c =
     (case tblInfo (taskH c t) of
        None \<Rightarrow> (Panic NilPointerDereference, c)
      | Some p \<Rightarrow> (Ok (), c\<lparr>tables := AList.update (tbl_name (tblH c p)) p (tables c)\<rparr>))"

definition createViewJob :: "ptr \<Rightarrow> testCase \<Rightarrow> unit res \<times> testCase" where
  "createViewJob t c =
     (case viewInfo (taskH c t) of
        None \<Rightarrow> (Panic NilPointerDereference, c)
      | Some p \<Rightarrow> (Ok (), c\<lparr>views := (views c)(view_name (viewH c p) \<mapsto> p)\<rparr>))"

text \<open>
  The loop of \<^verbatim>\<open>dropIndexJob\<close> over the columns of the index: each counter is decremented
  in place, wrapping around at the least value of \<^verbatim>\<open>int\<close> as \<^verbatim>\<open>column.indexReferences--\<close> does,
  and the first one found negative ends the applier with an error, the counters
  decremented so far staying as they are.
\<close>

fun decrementReferences :: "ptr list \<Rightarrow> testCase \<Rightarrow> unit res \<times> testCase" where
  "decrementReferences [] c = (Ok (), c)"
| "decrementReferences (col # cols) c =
     (let c' = c\<lparr>colH := (colH c)(col := (colH c col)
                  \<lparr>indexReferences := indexReferences (colH c col) - 1\<rparr>)\<rparr>
      in if sint (indexReferences (colH c' col)) < 0
         then (Err (UnexpectedIndexReference (col_name (colH c' col))), c')
         else decrementReferences cols c')"

definition dropIndexJob :: "env \<Rightarrow> ptr \<Rightarrow> testCase \<Rightarrow> unit res \<times> testCase" where
  "dropIndexJob e t c =
     (let task = taskH c t in
      case tblInfo task of
        None \<Rightarrow> (Panic NilPointerDereference, c)
      | Some tp \<Rightarrow>
          if isTableDeleted e c tp then (Err (TableNotExists (tbl_name (tblH c tp))), c)
          else (case task_arg task of
                  ArgNil \<Rightarrow> (Panic NilPointerDereference, c)
                | IndexJobArg None \<Rightarrow> (Panic NilPointerDereference, c)
                | IndexJobArg (Some ix) \<Rightarrow>
                    (let iOfDropIndex =
                           searchFrom (\<lambda>i. idx_name (idxH c ix) = idx_name (idxH c i))
                             (indexes (tblH c tp)) 0 (- 1)
                     in if iOfDropIndex = - 1
                        then (Err (IndexNotExists (tbl_name (tblH c tp)) (idx_name (idxH c ix))), c)
                        else (case decrementReferences (idx_columns (idxH c ix)) c of
                                (Ok u, c') \<Rightarrow>
                                  (Ok (),
                                   c'\<lparr>tblH := (tblH c')(tp := (tblH c' tp)
                                        \<lparr>indexes := take (nat iOfDropIndex) (indexes (tblH c' tp)) @
                                                    drop (nat iOfDropIndex + 1) (indexes (tblH c' tp))\<rparr>)\<rparr>)
                              | (r, c') \<Rightarrow> (r, c')))
                | _ \<Rightarrow> (Panic BadJobArg, c)))"

text \<open>
  The positional part of \<^verbatim>\<open>modifyColumnJob\<close> for the strategy that places the column
  after another one: the position found by name in the list after the removal, or the
  recorded index minus one when no column has the name.

  A task whose argument holds no original column leaves the applier nothing to test or
  to name in its error; the model answers it with the panic of the nil dereference.
\<close>

definition insertPositionAfter :: "testCase \<Rightarrow> int \<Rightarrow> ptr option \<Rightarrow> ptr list \<Rightarrow> int res" where
  "insertPositionAfter c origIndex after cols =
     (case after of
        None \<Rightarrow> (if cols = [] then Ok (origIndex - 1) else Panic NilPointerDereference)
      | Some a \<Rightarrow>
          Ok (searchFrom (\<lambda>col. col_name (colH c col) = col_name (colH c a)) cols 0
                (origIndex - 1)))"

definition modifyColumnJob :: "env \<Rightarrow> ptr \<Rightarrow> testCase \<Rightarrow> unit res \<times> testCase" where
  "modifyColumnJob e t c =
     (let task = taskH c t in
      case tblInfo task of
        None \<Rightarrow> (Panic NilPointerDereference, c)
      | Some tp \<Rightarrow>
          if isTableDeleted e c tp then (Err (TableNotExists (tbl_name (tblH c tp))), c)
          else (case task_arg task of
                  ArgNil \<Rightarrow> (Panic NilPointerDereference, c)
                | ColumnJobArg origIndex None newCol strategy after \<Rightarrow>
                    (Panic NilPointerDereference, c)
                | ColumnJobArg origIndex (Some orig) newCol strategy after \<Rightarrow>
                    if isColumnDeleted e c orig tp
                    then (Err (ColumnNotExists (col_name (colH c orig)) (tbl_name (tblH c tp))), c)
                    else (let removed = arraylistRemove origIndex (columns (tblH c tp));
                              store = (\<lambda>cols. c\<lparr>tblH := (tblH c)(tp := (tblH c tp)\<lparr>columns := cols\<rparr>)\<rparr>)
                          in case strategy of
                               ddlTestAddDropColumnStrategyAtBeginning \<Rightarrow>
                                 (Ok (), store (arraylistInsert 0 newCol removed))
                             | ddlTestAddDropColumnStrategyAtEnd \<Rightarrow>
                                 (Ok (), store (arraylistAdd newCol removed))
                             | ddlTestAddDropColumnStrategyAtRandom \<Rightarrow>
                                 (case insertPositionAfter c origIndex after removed of
                                    Ok insertPosition \<Rightarrow>
                                      (Ok (), store (arraylistInsert (insertPosition + 1) newCol removed))
                                  | Err x \<Rightarrow> (Err x, store removed)
                                  | Panic x \<Rightarrow> (Panic x, store removed))
                             | _ \<Rightarrow> (Ok (), store removed))
                | _ \<Rightarrow> (Panic BadJobArg, c)))"

text \<open>
  \<^verbatim>\<open>updateTableInfo\<close>: the switch on the kind of the task. The appliers of the kinds not
  modelled above are taken from \<open>env\<close>; a kind outside the switch is the error of its
  last line.
\<close>

definition updateTableInfo :: "env \<Rightarrow> ptr \<Rightarrow> testCase \<Rightarrow> unit res \<times> testCase" where
  "updateTableInfo e t c =
     (case task_k (taskH c t) of
        ddlCreateSchema \<Rightarrow> createSchemaJob t c
      | ddlAddTable \<Rightarrow> addTableInfo t c
      | ddlCreateView \<Rightarrow> createViewJob t c
      | ddlDropIndex \<Rightarrow> dropIndexJob e t c
      | ddlModifyColumn \<Rightarrow> modifyColumnJob e t c
      | ddlKindNil \<Rightarrow> (Err UnknownTask, c)
      | _ \<Rightarrow> otherJobs e t c)"

subsection \<open>The parallel dispatcher: execParaDDLSQL\<close>

text \<open>
  The loop over the sorted tasks. After each applier the local error and the error the
  server returned for the task are compared; when exactly one of them is nil the loop
  ends: with no error if the local error is an ignorable one, and otherwise with the
  error built from the statement, both errors and the dump of \<^verbatim>\<open>task.tblInfo\<close>, a call
  made without a nil check.
\<close>

fun applySorted :: "env \<Rightarrow> ptr list \<Rightarrow> testCase \<Rightarrow> unit res \<times> testCase" where
  "applySorted e [] c = (Ok (), c)"
| "applySorted e (t # ts) c =
     (case updateTableInfo e t c of
        (Panic x, c') \<Rightarrow> (Panic x, c')
      | (r, c') \<Rightarrow>
          (let err = (case r of Err x \<Rightarrow> Some x | _ \<Rightarrow> None);
               task = taskH c' t
           in if (err = None \<and> task_err task \<noteq> None) \<or> (err \<noteq> None \<and> task_err task = None)
              then (if err \<noteq> None \<and> ddlIgnoreError e err then (Ok (), c')
                    else (case debugPrintToString e c' (tblInfo task) of
                            Ok dump \<Rightarrow>
                              (Err (Divergence (task_sql task) err (task_err task) dump), c')
                          | Err x \<Rightarrow> (Err x, c')
                          | Panic x \<Rightarrow> (Panic x, c')))
              else applySorted e ts c'))"

text \<open>
  The workers of \<^verbatim>\<open>execParaDDLSQL\<close>: each one executes the statement of its task and stores
  the error of the server in the task unless the error is an ignorable one. \<open>serverErr\<close>
  gives the error that the server returns for the statement of a task. The workers run
  concurrently and each writes to its own task only, so the order in which the model
  visits them does not matter for a batch of distinct tasks.
\<close>

fun recordServerErrors :: "env \<Rightarrow> (ptr \<Rightarrow> error option) \<Rightarrow> ptr list \<Rightarrow> testCase \<Rightarrow> testCase" where
  "recordServerErrors e serverErr [] c = c"
| "recordServerErrors e serverErr (t # ts) c =
     recordServerErrors e serverErr ts
       (if \<not> ddlIgnoreError e (serverErr t)
        then c\<lparr>taskH := (taskH c)(t := (taskH c t)\<lparr>task_err := serverErr t\<rparr>)\<rparr>
        else c)"

text \<open>
  \<^verbatim>\<open>execParaDDLSQL\<close>: \<open>tasks\<close> is the batch of \<^verbatim>\<open>num\<close> tasks taken from the channel, and \<open>answer\<close>
  is what the server returns for the history query once all workers have finished.
\<close>

definition execParaDDLSQL :: "env \<Rightarrow> (ptr \<Rightarrow> error option) \<Rightarrow> error + string list list \<Rightarrow> ptr list \<Rightarrow> testCase \<Rightarrow> unit res \<times> testCase" where
  "execParaDDLSQL e serverErr answer tasks c =
     (if length tasks = 0 then (Ok (), c)
      else (case getSortTask answer tasks (recordServerErrors e serverErr tasks c) of
              (Err x, c1) \<Rightarrow> if ddlIgnoreError e (Some x) then (Ok (), c1) else (Err x, c1)
            | (Panic x, c1) \<Rightarrow> (Panic x, c1)
            | (Ok SortTasks, c1) \<Rightarrow> applySorted e SortTasks c1))"

subsection \<open>The serial dispatcher: execSerialDDLSQL\<close>

text \<open>
  \<^verbatim>\<open>execSerialDDLSQL\<close> takes one task from the channel \<open>taskCh\<close>, if there is one. Both of its
  error returns test \<^verbatim>\<open>task.tblInfo != nil\<close> before they ask for the dump of the table, and
  build the error without a dump otherwise.
\<close>

definition execSerialDDLSQL :: "env \<Rightarrow> (ptr \<Rightarrow> error option) \<Rightarrow> ptr list \<Rightarrow> testCase \<Rightarrow> unit res \<times> testCase" where
  "execSerialDDLSQL e serverErr taskCh c =
     (case taskCh of
        [] \<Rightarrow> (Ok (), c)
      | t # rest \<Rightarrow>
          (let task = taskH c t in
           case serverErr t of
             Some err \<Rightarrow>
               if ddlIgnoreError e (Some err) then (Ok (), c)
               else if tblInfo task \<noteq> None
               then (case debugPrintToString e c (tblInfo task) of
                       Ok dump \<Rightarrow> (Err (RemoteError (task_sql task) err (Some dump)), c)
                     | Err x \<Rightarrow> (Err x, c)
                     | Panic x \<Rightarrow> (Panic x, c))
               else (Err (RemoteError (task_sql task) err None), c)
           | None \<Rightarrow>
               (case updateTableInfo e t c of
                  (Err err, c') \<Rightarrow>
                    if tblInfo (taskH c' t) \<noteq> None
                    then (case debugPrintToString e c' (tblInfo (taskH c' t)) of
                            Ok dump \<Rightarrow>
                              (Err (LocalError (task_sql (taskH c' t)) err (Some dump)), c')
                          | Err x \<Rightarrow> (Err x, c')
                          | Panic x \<Rightarrow> (Panic x, c'))
                    else (Err (LocalError (task_sql (taskH c' t)) err None), c')
                | (r, c') \<Rightarrow> (r, c'))))"

subsection \<open>Preparers\<close>

text \<open>
  A preparer sends at most one task on the channel; the model returns it beside the
  new state. The random draws of \<^verbatim>\<open>math/rand\<close> are arguments: \<^verbatim>\<open>rand.Intn(n)\<close> is the draw
  modulo \<open>n\<close>, and a panic when \<open>n\<close> is not positive.
\<close>

definition randIntn :: "nat \<Rightarrow> nat \<Rightarrow> int res" where
  "randIntn r n = (if n = 0 then Panic IntnArgument else Ok (int (r mod n)))"

definition prepareDropTable :: "nat \<Rightarrow> testCase \<Rightarrow> ddlJobTask option res \<times> testCase" where
  "prepareDropTable r c =
     (let tableToDrop = pickupRandomTable r c
      in if length (tables c) \<le> 1 then (Ok None, c)
         else (case tableToDrop of
                 None \<Rightarrow> (Ok None, c)
               | Some p \<Rightarrow>
                   (Ok (Some \<lparr>ddlID = 0, task_k = ddlDropTable, tblInfo = Some p, schemaInfo = None,
                          viewInfo = None,
                          task_sql = ''DROP TABLE `'' @ tbl_name (tblH c p) @ ''`'',
                          task_arg = ArgNil, task_err = None\<rparr>),
                    table_setDeleted p c)))"

definition dropStrategy :: "nat \<Rightarrow> ddlTestAddDropColumnStrategy" where
  "dropStrategy n =
     (if n mod 3 = 0 then ddlTestAddDropColumnStrategyAtBeginning
      else if n mod 3 = 1 then ddlTestAddDropColumnStrategyAtEnd
      else ddlTestAddDropColumnStrategyAtRandom)"

text \<open>The \<^verbatim>\<open>switch\<close> of \<^verbatim>\<open>prepareDropColumn\<close> that turns the strategy into an index.\<close>

definition columnToDropIndexFor :: "ddlTestAddDropColumnStrategy \<Rightarrow> nat \<Rightarrow> ptr list \<Rightarrow> int res" where
  "columnToDropIndexFor strategy rColumn cols =
     (case strategy of
        ddlTestAddDropColumnStrategyAtBeginning \<Rightarrow> Ok 0
      | ddlTestAddDropColumnStrategyAtEnd \<Rightarrow> Ok (int (length cols) - 1)
      | ddlTestAddDropColumnStrategyAtRandom \<Rightarrow> randIntn rColumn (length cols)
      | _ \<Rightarrow> Ok (- 1))"

definition prepareDropColumn :: "nat \<Rightarrow> nat \<Rightarrow> nat \<Rightarrow> testCase \<Rightarrow> ddlJobTask option res \<times> testCase" where
  "prepareDropColumn rTable rStrategy rColumn c =
     (case pickupRandomTable rTable c of
        None \<Rightarrow> (Ok None, c)
      | Some p \<Rightarrow>
          if length (filterColumns predicateAll c p) \<le> 1 then (Ok None, c)
          else (let cols = columns (tblH c p);
                    strategy = dropStrategy rStrategy
                in case columnToDropIndexFor strategy rColumn cols of
                     Ok columnToDropIndex \<Rightarrow>
                       (case getColumnFromArrayList cols columnToDropIndex of
                          Ok columnToDrop \<Rightarrow>
                            if isPrimaryKey (colH c columnToDrop) then (Ok None, c)
                            else if hasGenerateCol c columnToDrop then (Ok None, c)
                            else if sint (indexReferences (colH c columnToDrop)) > 0 then (Ok None, c)
                            else (Ok (Some \<lparr>ddlID = 0, task_k = ddlDropColumn, tblInfo = Some p,
                                        schemaInfo = None, viewInfo = None,
                                        task_sql = ''ALTER TABLE `'' @ tbl_name (tblH c p) @
                                                   ''` DROP COLUMN `'' @
                                                   col_name (colH c columnToDrop) @ ''`'',
                                        task_arg = ColumnJobArg 0 None columnToDrop strategy None,
                                        task_err = None\<rparr>),
                                  column_setDeleted columnToDrop c)
                        | Err x \<Rightarrow> (Err x, c)
                        | Panic x \<Rightarrow> (Panic x, c))
                   | Err x \<Rightarrow> (Err x, c)
                   | Panic x \<Rightarrow> (Panic x, c)))"

subsection \<open>Notions used in the statements and proofs\<close>

text \<open>
  What one pairing of a job with a task leaves behind: the task has the kind of the job
  and now carries its id; no other task and not \<^verbatim>\<open>lastDDLID\<close> is touched.
\<close>

definition stamped :: "ddlJob \<Rightarrow> ptr \<Rightarrow> testCase \<Rightarrow> testCase \<Rightarrow> bool" where
  "stamped job t c c' =
     (job_k job = task_k (taskH c t) \<and>
      taskH c' = (taskH c)(t := (taskH c t)\<lparr>ddlID := job_id job\<rparr>) \<and>
      lastDDLID c' = lastDDLID c)"

text \<open>
  The invariant of the two loops of \<^verbatim>\<open>getSortTask\<close>: every entry of \<^verbatim>\<open>sortTasks\<close> is a task of
  the batch that carries the id of a job of its own kind, and \<^verbatim>\<open>lastDDLID\<close> is still \<open>l\<close>.
\<close>

definition sortInv :: "ddlJob list \<Rightarrow> ptr set \<Rightarrow> int \<Rightarrow> testCase \<Rightarrow> ptr list \<Rightarrow> bool" where
  "sortInv J T l c s =
     ((\<forall>t\<in>set s. \<exists>j\<in>set J. job_id j = ddlID (taskH c t) \<and> job_k j = task_k (taskH c t)) \<and>
      set s \<subseteq> T \<and> lastDDLID c = l)"


text \<open>
  The column order that the specification prescribes for a modify-column task with the
  strategy AFTER \<open>x\<close>: the order before the task with the column moved to the position
  right after \<open>x\<close>, where it stands with its new definition; when \<open>x\<close> is the modified column
  itself, the order is unchanged and the column is replaced where it stands.
\<close>

definition columnMovedAfter :: "ptr \<Rightarrow> ptr \<Rightarrow> ptr \<Rightarrow> ptr list \<Rightarrow> ptr list" where
  "columnMovedAfter orig newCol x cols =
     (if x = orig then map (\<lambda>y. if y = orig then newCol else y) cols
      else concat (map (\<lambda>y. if y = orig then [] else if y = x then [x, newCol] else [y]) cols))"

subsection \<open>Concrete catalogs, batches and histories\<close>

definition nullTask :: ddlJobTask where
  "nullTask =
     \<lparr>ddlID = 0, task_k = ddlKindNil, tblInfo = None, schemaInfo = None, viewInfo = None,
      task_sql = [], task_arg = ArgNil, task_err = None\<rparr>"

definition emptyCase :: testCase where
  "emptyCase =
     \<lparr>taskH = (\<lambda>_. nullTask),
      tblH = (\<lambda>_. \<lparr>tbl_name = [], tbl_id = [], columns = [], indexes = [], tbl_deleted = 0\<rparr>),
      colH = (\<lambda>_. \<lparr>col_name = [], isPrimaryKey = False, indexReferences = 0,
                    dependenciedCols = [], col_deleted = 0\<rparr>),
      idxH = (\<lambda>_. \<lparr>idx_name = [], signature = [], idx_columns = []\<rparr>),
      schemaH = (\<lambda>_. \<lparr>schema_name = [], schema_id = [], schema_deleted = False\<rparr>),
      viewH = (\<lambda>_. \<lparr>view_name = [], view_id = []\<rparr>),
      tables = [], schemas = Map.empty, views = Map.empty, ddlOps = [], lastDDLID = 0,
      initDB = ''test''\<rparr>"

definition tableTask :: "DDLKind \<Rightarrow> ptr \<Rightarrow> string \<Rightarrow> ddlJobArg \<Rightarrow> ddlJobTask" where
  "tableTask kind p stmt a =
     \<lparr>ddlID = 0, task_k = kind, tblInfo = Some p, schemaInfo = None, viewInfo = None,
      task_sql = stmt, task_arg = a, task_err = None\<rparr>"

text \<open>A row of \<^verbatim>\<open>admin show ddl jobs\<close> with nine fields: the state is missing.\<close>

definition nineFieldRow :: "string list" where
  "nineFieldRow =
     [''50'', ''test'', ''t1'', ''drop table'', ''none'', ''1'', ''44'', ''0'', ''2018-07-13'']"

text \<open>Two tables, and a batch of two tasks of different kinds, one on each.\<close>

definition twoTables :: testCase where
  "twoTables = emptyCase
     \<lparr>tblH := (tblH emptyCase)
        (0 := \<lparr>tbl_name = ''t1'', tbl_id = ''44'', columns = [], indexes = [], tbl_deleted = 0\<rparr>,
         1 := \<lparr>tbl_name = ''t2'', tbl_id = ''45'', columns = [], indexes = [], tbl_deleted = 0\<rparr>),
      tables := [(''t1'', 0), (''t2'', 1)]\<rparr>"







text \<open>
  An environment for the examples: no error is ignorable, a table is deleted when its
  name is not in \<^verbatim>\<open>c.tables\<close>, a column when its name is not among the columns of the
  table, the dump of a table is its name, and the appliers not modelled succeed.
\<close>

definition plainEnv :: env where
  "plainEnv =
     \<lparr>ddlIgnoreError = (\<lambda>x. False),
      isTableDeleted = (\<lambda>c p. map_of (tables c) (tbl_name (tblH c p)) = None),
      isColumnDeleted = (\<lambda>c col p.
         \<not> list_ex (\<lambda>x. col_name (colH c x) = col_name (colH c col)) (columns (tblH c p))),
      tableDump = (\<lambda>c p. tbl_name (tblH c p)),
      otherJobs = (\<lambda>t c. (Ok (), c))\<rparr>"

text \<open>The same, with the error of a missing index classified as ignorable.\<close>

definition lenientEnv :: env where
  "lenientEnv = plainEnv
     \<lparr>ddlIgnoreError := (\<lambda>x. case x of Some (IndexNotExists tbl idx) \<Rightarrow> True | _ \<Rightarrow> False)\<rparr>"

text \<open>
  A batch of one drop-index task that the server accepted, on a table whose index list
  in the catalog does not hold the index.
\<close>

definition dropIndexBatch :: testCase where
  "dropIndexBatch = twoTables
     \<lparr>taskH := (taskH twoTables)
        (0 := tableTask ddlDropIndex 0 ''ALTER TABLE `t1` DROP INDEX `ix`''
                (IndexJobArg (Some 0))),
      idxH := (idxH twoTables)(0 := \<lparr>idx_name = ''ix'', signature = ''a,'', idx_columns = []\<rparr>)\<rparr>"

definition dropIndexHistory :: "string list list" where
  "dropIndexHistory =
     [[''50'', ''test'', ''t1'', ''drop index'', ''none'', ''1'', ''44'', ''0'', ''2018-07-13'',
       ''synced'']]"

text \<open>
  A batch of one create-schema task, a server that returns an error for its statement,
  and the history that lists its job. \<open>accepted\<close> is a server that returns no error.
\<close>

definition accepted :: "ptr \<Rightarrow> error option" where
  "accepted t = None"

definition rejected :: "ptr \<Rightarrow> error option" where
  "rejected t = Some (DBError ''Error 1273: Unknown collation'')"

definition schemaBatch :: testCase where
  "schemaBatch = emptyCase
     \<lparr>taskH := (taskH emptyCase)
        (0 := \<lparr>ddlID = 0, task_k = ddlCreateSchema, tblInfo = None, schemaInfo = Some 0,
               viewInfo = None,
               task_sql = ''CREATE DATABASE `s1` CHARACTER SET 'utf8' COLLATE 'utf8_bin'' @
                          [CHR 0x27],
               task_arg = ArgNil, task_err = None\<rparr>),
      schemaH := (schemaH emptyCase)
        (0 := \<lparr>schema_name = ''s1'', schema_id = [], schema_deleted = False\<rparr>)\<rparr>"

definition schemaHistory :: "string list list" where
  "schemaHistory =
     [[''50'', ''s1'', '''', ''create schema'', ''none'', ''51'', ''0'', ''0'', ''2018-07-13'',
       ''cancelled'']]"

text \<open>
  A table \<^verbatim>\<open>t1(a, b)\<close> with the index \<^verbatim>\<open>ix(a)\<close>, and a task that drops the index.
\<close>

definition namedColumn :: "string \<Rightarrow> 64 word \<Rightarrow> ddlTestColumn" where
  "namedColumn n refs =
     \<lparr>col_name = n, isPrimaryKey = False, indexReferences = refs, dependenciedCols = [],
      col_deleted = 0\<rparr>"

definition indexedBatch :: testCase where
  "indexedBatch = emptyCase
     \<lparr>taskH := (taskH emptyCase)
        (0 := tableTask ddlDropIndex 0 ''ALTER TABLE `t1` DROP INDEX `ix`''
                (IndexJobArg (Some 0))),
      tblH := (tblH emptyCase)
        (0 := \<lparr>tbl_name = ''t1'', tbl_id = ''44'', columns = [0, 1], indexes = [0],
               tbl_deleted = 0\<rparr>),
      colH := (colH emptyCase)(0 := namedColumn ''a'' 1, 1 := namedColumn ''b'' 0),
      idxH := (idxH emptyCase)(0 := \<lparr>idx_name = ''ix'', signature = ''a,'', idx_columns = [0]\<rparr>),
      tables := [(''t1'', 0)]\<rparr>"

text \<open>
  A table \<^verbatim>\<open>t1(a, b, c)\<close> and a task that modifies \<^verbatim>\<open>b\<close>, recorded at index 1, and places it
  after \<^verbatim>\<open>c\<close>. In \<open>staleBatch\<close> the table has become \<^verbatim>\<open>t1(n, a, b, c)\<close> since the task was
  prepared, as it does when an add-column task of the same batch that puts \<^verbatim>\<open>n\<close> first is
  applied before it.
\<close>

definition modifyBatch :: testCase where
  "modifyBatch = emptyCase
     \<lparr>taskH := (taskH emptyCase)
        (0 := tableTask ddlModifyColumn 0
                ''alter table `t1` modify column `b` bigint AFTER `c`''
                (ColumnJobArg 1 (Some 12) 14 ddlTestAddDropColumnStrategyAtRandom (Some 13))),
      tblH := (tblH emptyCase)
        (0 := \<lparr>tbl_name = ''t1'', tbl_id = ''44'', columns = [11, 12, 13], indexes = [],
               tbl_deleted = 0\<rparr>),
      colH := (colH emptyCase)
        (10 := namedColumn ''n'' 0, 11 := namedColumn ''a'' 0, 12 := namedColumn ''b'' 0,
         13 := namedColumn ''c'' 0, 14 := namedColumn ''b'' 0),
      tables := [(''t1'', 0)]\<rparr>"

definition staleBatch :: testCase where
  "staleBatch = modifyBatch
     \<lparr>tblH := (tblH modifyBatch)
        (0 := \<lparr>tbl_name = ''t1'', tbl_id = ''44'', columns = [10, 11, 12, 13], indexes = [],
               tbl_deleted = 0\<rparr>)\<rparr>"

text \<open>
  The catalog of two tables after a preparer has tombstoned the first one; its applier
  has not run, so the table is still an entry of \<^verbatim>\<open>c.tables\<close>.
\<close>

definition tombstoneCase :: testCase where
  "tombstoneCase = table_setDeleted 0 twoTables"

text \<open>
  Variants of the table \<^verbatim>\<open>t1(a, b)\<close>: the counter of \<^verbatim>\<open>a\<close> is 0 although the index holds it;
  \<^verbatim>\<open>a\<close> is a primary-key column with no index; \<^verbatim>\<open>a\<close> is tombstoned and has no index, so that
  \<^verbatim>\<open>b\<close> is the last live column.
\<close>

definition unreferencedBatch :: testCase where
  "unreferencedBatch = indexedBatch\<lparr>colH := (colH indexedBatch)(0 := namedColumn ''a'' 0)\<rparr>"


definition leastCounterBatch :: testCase where
  "leastCounterBatch = indexedBatch
     \<lparr>colH := (colH indexedBatch)(0 := namedColumn ''a'' 0x8000000000000000)\<rparr>"

definition keyColumnCase :: testCase where
  "keyColumnCase = indexedBatch
     \<lparr>colH := (colH indexedBatch)
        (0 := \<lparr>col_name = ''a'', isPrimaryKey = True, indexReferences = 0,
               dependenciedCols = [], col_deleted = 0\<rparr>)\<rparr>"

definition lastColumnCase :: testCase where
  "lastColumnCase = indexedBatch
     \<lparr>colH := (colH indexedBatch)
        (0 := \<lparr>col_name = ''a'', isPrimaryKey = False, indexReferences = 0,
               dependenciedCols = [], col_deleted = 1\<rparr>)\<rparr>"

section \<open>Properties\<close>

subsection \<open>The registry\<close>

lemmas generate_defs =
  generateDDLOps_def generateCreateSchema_def generateDropSchema_def generateAddTable_def
  generateRenameTable_def generateTruncateTable_def generateModifyTableComment_def
  generateModifyTableCharsetAndCollate_def generateShardRowID_def generateRebaseAutoID_def
  generateDropTable_def generateCreateView_def generateAddIndex_def generateRenameIndex_def
  generateDropIndex_def generateAddColumn_def generateModifyColumn_def generateDropColumn_def
  generateSetDefaultValue_def

lemma registry_entries: "ddlOps (generateDDLOps c) = ddlOps c @ registryEntries"
  by (simp add: generate_defs registryEntries_def)

lemma registry_kinds: "map ddlKind registryEntries = registryOrder"
  by (simp add: registryEntries_def registryOrder_def)

lemma generationPass_subseq: "subseq (generationPass coins ops) ops"
  by (induction coins ops rule: generationPass.induct) auto

lemma generationPass_all: "generationPass (replicate (length ops) True) ops = ops"
  by (induction ops) simp_all

text \<open>
  Claim C7, as amended. \<^verbatim>\<open>generateDDLOps\<close> appends to the registry eighteen executors, each
  holding one kind and the preparer of that kind, in the order create schema, drop
  schema, create table, rename table, truncate table, modify table comment, modify
  table charset and collate, shard row ID, rebase auto\_increment ID, drop table, create
  view, add index, rename index, drop index, add column, modify column, drop column,
  set default value. These are the eighteen kinds of the weight table, each once. A
  generation pass over the registry of a fresh test case, in which every coin succeeds,
  calls exactly these preparers in exactly this order, and any pass calls a subsequence
  of them.
\<close>

theorem generateDDLOps_registry_order:
  "ddlOps (generateDDLOps c) = ddlOps c @ registryEntries \<and>
   map ddlKind registryEntries = registryOrder \<and>
   distinct registryOrder \<and>
   set registryOrder = set weightTableOrder \<and>
   generationPass (replicate 18 True) (ddlOps (generateDDLOps (c\<lparr>ddlOps := []\<rparr>)))
     = registryEntries \<and>
   (\<forall>coins. subseq (generationPass coins (ddlOps (generateDDLOps (c\<lparr>ddlOps := []\<rparr>))))
              registryEntries)"
proof -
  let ?ops = "ddlOps (generateDDLOps (c\<lparr>ddlOps := []\<rparr>))"
  have ops: "?ops = registryEntries" using registry_entries[of "c\<lparr>ddlOps := []\<rparr>"] by simp
  have len: "length registryEntries = 18" by (simp add: registryEntries_def)
  have full: "generationPass (replicate 18 True) ?ops = registryEntries"
    using generationPass_all[of registryEntries] len ops by simp
  have sub: "subseq (generationPass coins ?ops) registryEntries" for coins
    using generationPass_subseq[of coins registryEntries] ops by simp
  have d: "distinct registryOrder" by (simp add: registryOrder_def)
  have s: "set registryOrder = set weightTableOrder"
    by (auto simp: registryOrder_def weightTableOrder_def)
  show ?thesis using registry_entries registry_kinds d s full sub by blast
qed

text \<open>
  Claim C7, as stated, fails: with every coin succeeding, the preparers are not called
  in the order of the weight table (the first call is the one for create schema, not
  the one for create table).
\<close>

theorem generationPass_order_counterexample:
  "map ddlKind (generationPass (replicate 18 True) (ddlOps (generateDDLOps emptyCase)))
     \<noteq> weightTableOrder"
proof -
  have "ddlOps (generateDDLOps emptyCase) = registryEntries"
    using registry_entries[of emptyCase] by (simp add: emptyCase_def)
  moreover have "length registryEntries = 18" by (simp add: registryEntries_def)
  ultimately have
    "generationPass (replicate 18 True) (ddlOps (generateDDLOps emptyCase)) = registryEntries"
    using generationPass_all[of registryEntries] by simp
  then show ?thesis using registry_kinds by (simp add: registryOrder_def weightTableOrder_def)
qed

subsection \<open>The history rows\<close>

lemmas history_eval =
  getHistoryDDLJobs_def Atoi_def isDigit_def digitsValue_def mapOfDDLKind_def

text \<open>
  Claim C9 says that a row with fewer than ten fields is rejected with the error about
  too few columns. The length check of \<^verbatim>\<open>getHistoryDDLJobs\<close> compares with 9, so a row of
  nine fields passes it, and the read of the tenth field panics.
\<close>

theorem getHistoryDDLJobs_nine_fields:
  "getHistoryDDLJobs (Inr [nineFieldRow]) emptyCase = Panic IndexOutOfRange"
  by (simp add: history_eval nineFieldRow_def emptyCase_def)

text \<open>
  With eight fields the row is rejected; with nine fields and an id that is not new, it
  is skipped before any field beyond the fourth is read.
\<close>

lemma getHistoryDDLJobs_eight_fields:
  "getHistoryDDLJobs (Inr [take 8 nineFieldRow]) emptyCase =
     Err (NoEnoughColumn (take 8 nineFieldRow))"
  by (simp add: history_eval nineFieldRow_def emptyCase_def)

lemma getHistoryDDLJobs_nine_fields_old:
  "getHistoryDDLJobs (Inr [nineFieldRow]) (emptyCase\<lparr>lastDDLID := 50\<rparr>) = Ok []"
  by (simp add: history_eval nineFieldRow_def emptyCase_def)

lemma parseRows_short_row:
  "length row < 9 \<Longrightarrow> parseRows lastID (row # rows) jobs = Err (NoEnoughColumn row)"
  by simp

lemma parseRows_ten_fields:
  "\<forall>row\<in>set rows. 10 \<le> length row \<Longrightarrow> parseRows lastID rows jobs \<noteq> Panic x"
proof (induction rows arbitrary: jobs)
  case Nil
  then show ?case by simp
next
  case (Cons row rows)
  then have "\<not> length row < 9" "\<not> length row \<le> 9" by simp_all
  then show ?case
    using Cons by (simp split: sum.splits option.splits)
qed

lemma parseRows_ids:
  "parseRows lastID rows acc = Ok jobs \<Longrightarrow> (\<forall>j\<in>set acc. lastID < job_id j)
     \<Longrightarrow> (\<forall>j\<in>set jobs. lastID < job_id j)"
proof (induction rows arbitrary: acc)
  case Nil
  then show ?case by simp
next
  case (Cons row rows)
  have short: "\<not> length row < 9"
    using Cons.prems(1) by (cases "length row < 9") simp_all
  obtain i where i: "Atoi (row ! 0) = Inr i"
    using Cons.prems(1) short by (cases "Atoi (row ! 0)") simp_all
  show ?case
  proof (cases "i \<le> lastID")
    case True
    then have "parseRows lastID rows acc = Ok jobs"
      using Cons.prems(1) short i by simp
    then show ?thesis using Cons.IH Cons.prems(2) by blast
  next
    case new: False
    show ?thesis
    proof (cases "mapOfDDLKind (row ! 3)")
      case None
      then have "parseRows lastID rows acc = Ok jobs"
        using Cons.prems(1) short i new by simp
      then show ?thesis using Cons.IH Cons.prems(2) by blast
    next
      case (Some kind)
      have long: "\<not> length row \<le> 9"
        using Cons.prems(1) short i new Some by (cases "length row \<le> 9") simp_all
      define job where "job = \<lparr>job_id = i, job_schemaName = row ! 1, job_tableName = row ! 2,
        job_k = kind, job_jobState = row ! 9, job_tableID = row ! 6, job_schemaID = row ! 5\<rparr>"
      have "parseRows lastID rows (acc @ [job]) = Ok jobs"
        using Cons.prems(1) short i new Some long by (simp add: job_def)
      moreover have "\<forall>j\<in>set (acc @ [job]). lastID < job_id j"
        using Cons.prems(2) new by (simp add: job_def)
      ultimately show ?thesis using Cons.IH by blast
    qed
  qed
qed

lemma getHistoryDDLJobs_ids:
  "getHistoryDDLJobs answer c = Ok jobs \<Longrightarrow> \<forall>j\<in>set jobs. lastDDLID c < job_id j"
  unfolding getHistoryDDLJobs_def
  by (cases answer) (simp_all, metis parseRows_ids empty_iff list.set(1))

subsection \<open>The order of a batch\<close>

lemma setDDLID_sel [simp]:
  "taskH (setDDLID t i c) = (taskH c)(t := (taskH c t)\<lparr>ddlID := i\<rparr>)"
  "lastDDLID (setDDLID t i c) = lastDDLID c"
  by (simp_all add: setDDLID_def)

lemma setTableID_sel [simp]:
  "taskH (setTableID p s c) = taskH c" "lastDDLID (setTableID p s c) = lastDDLID c"
  by (simp_all add: setTableID_def)

lemma setSchemaID_sel [simp]:
  "taskH (setSchemaID p s c) = taskH c" "lastDDLID (setSchemaID p s c) = lastDDLID c"
  by (simp_all add: setSchemaID_def)

lemma setViewID_sel [simp]:
  "taskH (setViewID p s c) = taskH c" "lastDDLID (setViewID p s c) = lastDDLID c"
  by (simp_all add: setViewID_def)

text \<open>One run of the loop body either changes nothing or appends the task and stamps it.\<close>

lemma ifSameKind_step:
  "ifSameKind job t s c = Ok (b, s', c') \<Longrightarrow>
     (s' = s \<and> c' = c) \<or> (s' = s @ [t] \<and> stamped job t c c')"
  unfolding ifSameKind_def Let_def stamped_def
  by (simp split: if_splits; auto)

lemma ifCreateView_step:
  "ifCreateView job t s c = Ok (b, s', c') \<Longrightarrow>
     (s' = s \<and> c' = c) \<or> (s' = s @ [t] \<and> stamped job t c c')"
  unfolding ifCreateView_def Let_def
  by (simp split: if_splits option.splits add: ifSameKind_step; auto simp: stamped_def)

lemma ifCreateSchema_step:
  "ifCreateSchema job t s c = Ok (b, s', c') \<Longrightarrow>
     (s' = s \<and> c' = c) \<or> (s' = s @ [t] \<and> stamped job t c c')"
  unfolding ifCreateSchema_def Let_def
  by (simp split: if_splits option.splits add: ifCreateView_step; auto simp: stamped_def)

lemma ifAddTable_step:
  "ifAddTable job t s c = Ok (b, s', c') \<Longrightarrow>
     (s' = s \<and> c' = c) \<or> (s' = s @ [t] \<and> stamped job t c c')"
  unfolding ifAddTable_def Let_def
  by (simp split: if_splits option.splits add: ifCreateSchema_step; auto simp: stamped_def)

text \<open>
  For a task that carries neither a view nor a schema, the body appends only in
  branches that end with \<^verbatim>\<open>break\<close>.
\<close>

lemma ifSameKind_tableTask:
  "ifSameKind job t s c = Ok (b, s', c') \<Longrightarrow> viewInfo (taskH c t) = None \<Longrightarrow>
   schemaInfo (taskH c t) = None \<Longrightarrow> (b \<and> s' = s @ [t]) \<or> (\<not> b \<and> s' = s \<and> c' = c)"
  unfolding ifSameKind_def Let_def
  by (simp split: if_splits; auto)

lemma ifAddTable_tableTask:
  "ifAddTable job t s c = Ok (b, s', c') \<Longrightarrow> viewInfo (taskH c t) = None \<Longrightarrow>
   schemaInfo (taskH c t) = None \<Longrightarrow> (b \<and> s' = s @ [t]) \<or> (\<not> b \<and> s' = s \<and> c' = c)"
  unfolding ifAddTable_def ifCreateSchema_def ifCreateView_def Let_def
  by (simp split: if_splits option.splits add: ifSameKind_tableTask;
      auto dest: ifSameKind_tableTask)

lemma ifAddTable_no_Err: "ifAddTable job t s c \<noteq> Err x"
  unfolding ifAddTable_def ifCreateSchema_def ifCreateView_def ifSameKind_def Let_def
  by (simp split: option.splits)


lemma step_inv:
  assumes "(s' = s \<and> c' = c) \<or> (s' = s @ [t] \<and> stamped job t c c')"
    and "job \<in> set J" and "t \<in> T" and "sortInv J T l c s"
  shows "sortInv J T l c' s'"
  using assms(1)
proof
  assume "s' = s \<and> c' = c"
  then show ?thesis using assms(4) by simp
next
  assume st: "s' = s @ [t] \<and> stamped job t c c'"
  have "\<exists>j\<in>set J. job_id j = ddlID (taskH c' u) \<and> job_k j = task_k (taskH c' u)"
    if "u \<in> set s'" for u
  proof (cases "u = t")
    case True
    then show ?thesis using st assms(2) by (auto simp: stamped_def)
  next
    case False
    then have "u \<in> set s" using that st by simp
    then show ?thesis using False st assms(4) by (auto simp: stamped_def sortInv_def)
  qed
  then show ?thesis
    using st assms(3,4) by (simp add: sortInv_def stamped_def)
qed

lemma matchTasks_inv:
  "matchTasks job ts s c = Ok (s', c') \<Longrightarrow> job \<in> set J \<Longrightarrow> set ts \<subseteq> T \<Longrightarrow>
   sortInv J T l c s \<Longrightarrow> sortInv J T l c' s'"
proof (induction ts arbitrary: s c)
  case Nil
  then show ?case by simp
next
  case (Cons t ts)
  obtain b s1 c1 where step: "ifAddTable job t s c = Ok (b, s1, c1)"
    using Cons.prems(1) by (cases "ifAddTable job t s c") (auto split: prod.splits)
  have inv1: "sortInv J T l c1 s1"
    using step_inv[OF ifAddTable_step[OF step] Cons.prems(2) _ Cons.prems(4)] Cons.prems(3)
    by simp
  show ?case
  proof (cases b)
    case True
    then show ?thesis using Cons.prems(1) step inv1 by simp
  next
    case False
    then have "matchTasks job ts s1 c1 = Ok (s', c')"
      using Cons.prems(1) step by simp
    then show ?thesis using Cons.IH Cons.prems(2,3) inv1 by simp
  qed
qed

lemma matchTasks_no_Err: "matchTasks job ts s c \<noteq> Err x"
proof (induction ts arbitrary: s c)
  case Nil
  then show ?case by simp
next
  case (Cons t ts)
  then show ?case
    by (cases "ifAddTable job t s c") (auto simp: ifAddTable_no_Err split: prod.splits)
qed


lemma matchTasks_atMostOne:
  "matchTasks job ts s c = Ok (s', c') \<Longrightarrow>
   (\<forall>t\<in>set ts. viewInfo (taskH c t) = None \<and> schemaInfo (taskH c t) = None) \<Longrightarrow>
   length s' \<le> length s + 1"
proof (induction ts arbitrary: s c)
  case Nil
  then show ?case by simp
next
  case (Cons t ts)
  obtain b s1 c1 where step: "ifAddTable job t s c = Ok (b, s1, c1)"
    using Cons.prems(1) by (cases "ifAddTable job t s c") (auto split: prod.splits)
  have branches: "(b \<and> s1 = s @ [t]) \<or> (\<not> b \<and> s1 = s \<and> c1 = c)"
    using ifAddTable_tableTask[OF step] Cons.prems(2) by simp
  show ?case
  proof (cases b)
    case True
    then show ?thesis using Cons.prems(1) step branches by simp
  next
    case False
    then have "matchTasks job ts s c = Ok (s', c')"
      using Cons.prems(1) step branches by simp
    then show ?thesis using Cons.IH Cons.prems(2) by simp
  qed
qed

lemma sortLoop_inv:
  "sortLoop jobs tasks s c = Ok (s', c') \<Longrightarrow> set jobs \<subseteq> set J \<Longrightarrow>
   sortInv J (set tasks) l c s \<Longrightarrow> sortInv J (set tasks) l c' s'"
proof (induction jobs arbitrary: s c)
  case Nil
  then show ?case by simp
next
  case (Cons job jobs)
  obtain s1 c1 where m: "matchTasks job tasks s c = Ok (s1, c1)"
    using Cons.prems(1) by (cases "matchTasks job tasks s c") (auto split: prod.splits)
  have inv1: "sortInv J (set tasks) l c1 s1"
    using matchTasks_inv[OF m _ _ Cons.prems(3)] Cons.prems(2) by simp
  show ?case
  proof (cases "length s1 = length tasks")
    case True
    then show ?thesis using Cons.prems(1) m inv1 by simp
  next
    case False
    then have "sortLoop jobs tasks s1 c1 = Ok (s', c')"
      using Cons.prems(1) m by simp
    then show ?thesis using Cons.IH Cons.prems(2) inv1 by simp
  qed
qed

lemma sortLoop_no_Err: "sortLoop jobs tasks s c \<noteq> Err x"
proof (induction jobs arbitrary: s c)
  case Nil
  then show ?case by simp
next
  case (Cons job jobs)
  then show ?case
    by (cases "matchTasks job tasks s c") (auto simp: matchTasks_no_Err split: prod.splits)
qed




text \<open>What a successful call of \<^verbatim>\<open>getSortTask\<close> went through.\<close>

lemma getSortTask_Ok:
  assumes "getSortTask answer tasks c = (Ok sorted_tasks, c')"
  obtains jobs s c1 where "getHistoryDDLJobs answer c = Ok jobs"
    and "sortLoop jobs tasks [] c = Ok (s, c1)"
    and "length s = length tasks"
    and "sorted_tasks = sort_key (\<lambda>t. ddlID (taskH c1 t)) s"
    and "c' = (if 0 < length sorted_tasks
               then c1\<lparr>lastDDLID := ddlID (taskH c1 (last sorted_tasks))\<rparr> else c1)"
proof -
  obtain jobs where j: "getHistoryDDLJobs answer c = Ok jobs"
    using assms unfolding getSortTask_def by (cases "getHistoryDDLJobs answer c") simp_all
  obtain s c1 where l: "sortLoop jobs tasks [] c = Ok (s, c1)"
    using assms j unfolding getSortTask_def
    by (cases "sortLoop jobs tasks [] c") (auto split: prod.splits)
  have len: "length s = length tasks"
    using assms j l unfolding getSortTask_def by (cases "length s = length tasks") simp_all
  have "getSortTask answer tasks c =
      (Ok (sort_key (\<lambda>t. ddlID (taskH c1 t)) s),
       if 0 < length (sort_key (\<lambda>t. ddlID (taskH c1 t)) s)
       then c1\<lparr>lastDDLID := ddlID (taskH c1 (last (sort_key (\<lambda>t. ddlID (taskH c1 t)) s)))\<rparr>
       else c1)"
    using j l len unfolding getSortTask_def Let_def by simp
  then have "sorted_tasks = sort_key (\<lambda>t. ddlID (taskH c1 t)) s"
    and "c' = (if 0 < length sorted_tasks
               then c1\<lparr>lastDDLID := ddlID (taskH c1 (last sorted_tasks))\<rparr> else c1)"
    using assms by simp_all
  then show ?thesis using that[OF j l len] by blast
qed

text \<open>Whatever a call of \<^verbatim>\<open>getSortTask\<close> returns, it does not lower \<^verbatim>\<open>lastDDLID\<close>.\<close>

lemma getSortTask_lastDDLID:
  "lastDDLID c \<le> lastDDLID (snd (getSortTask answer tasks c))"
proof (cases "getSortTask answer tasks c")
  case (Pair r c')
  show ?thesis
  proof (cases r)
    case (Ok sorted_tasks)
    with Pair have "getSortTask answer tasks c = (Ok sorted_tasks, c')" by simp
    then obtain jobs s c1 where j: "getHistoryDDLJobs answer c = Ok jobs"
      and l: "sortLoop jobs tasks [] c = Ok (s, c1)"
      and srt: "sorted_tasks = sort_key (\<lambda>t. ddlID (taskH c1 t)) s"
      and c': "c' = (if 0 < length sorted_tasks
                 then c1\<lparr>lastDDLID := ddlID (taskH c1 (last sorted_tasks))\<rparr> else c1)"
      by (rule getSortTask_Ok)
    have "sortInv jobs (set tasks) (lastDDLID c) c []" by (simp add: sortInv_def)
    then have inv: "sortInv jobs (set tasks) (lastDDLID c) c1 s"
      using sortLoop_inv[OF l] by simp
    show ?thesis
    proof (cases "sorted_tasks = []")
      case True
      then show ?thesis using Pair c' inv by (simp add: sortInv_def)
    next
      case False
      then have "last sorted_tasks \<in> set s" using srt last_in_set[OF False] by simp
      then obtain job where "job \<in> set jobs"
        and "job_id job = ddlID (taskH c1 (last sorted_tasks))"
        using inv unfolding sortInv_def by blast
      then have "lastDDLID c < ddlID (taskH c1 (last sorted_tasks))"
        using getHistoryDDLJobs_ids[OF j] by auto
      then show ?thesis using Pair c' False by simp
    qed
  next
    case (Err x)
    show ?thesis
    proof (cases "getHistoryDDLJobs answer c")
      case jobs: (Ok jobs)
      show ?thesis
      proof (cases "sortLoop jobs tasks [] c")
        case (Ok p)
        obtain s c1 where p: "p = (s, c1)" by (cases p)
        have "sortInv jobs (set tasks) (lastDDLID c) c []" by (simp add: sortInv_def)
        then have inv: "sortInv jobs (set tasks) (lastDDLID c) c1 s"
          using sortLoop_inv[of jobs tasks "[]" c s c1] Ok p by simp
        have "c' = c1"
          using Pair Err jobs Ok p unfolding getSortTask_def Let_def
          by (simp split: if_splits)
        then show ?thesis using Pair inv by (simp add: sortInv_def)
      next
        case inner: (Err y)
        then show ?thesis using sortLoop_no_Err by blast
      next
        case (Panic y)
        then show ?thesis using Pair jobs unfolding getSortTask_def by simp
      qed
    next
      case inner: (Err y)
      then show ?thesis using Pair unfolding getSortTask_def by simp
    next
      case (Panic y)
      then show ?thesis using Pair unfolding getSortTask_def by simp
    qed
  next
    case (Panic x)
    have "c' = c"
      using Pair Panic unfolding getSortTask_def Let_def
      by (auto split: res.splits prod.splits if_splits)
    then show ?thesis using Pair by simp
  qed
qed

lemmas sort_eval =
  getSortTask_def history_eval ifAddTable_def ifCreateSchema_def ifCreateView_def
  ifSameKind_def setDDLID_def setTableID_def setSchemaID_def setViewID_def Let_def jobLine_def
  taskLines_def emptyCase_def nullTask_def tableTask_def twoTables_def











subsection \<open>The parallel dispatcher\<close>

lemmas apply_eval =
  execParaDDLSQL_def execSerialDDLSQL_def updateTableInfo_def createSchemaJob_def
  dropIndexJob_def debugPrintToString_def plainEnv_def lenientEnv_def accepted_def rejected_def

text \<open>
  Claim C1, as amended. After an applier has run (and not panicked), the dispatcher
  compares the local error with the error recorded for the server. If both are nil or
  both are not, the batch goes on with the next task. If exactly one is nil: when the
  local error is not nil and \<^verbatim>\<open>ddlIgnoreError\<close> classifies it as ignorable, the dispatcher
  stops and returns no error; otherwise, for a task that carries a table, it returns
  the divergence error made of the statement of the task, both errors and the dump of
  that table.
\<close>

theorem applySorted_compare:
  assumes "updateTableInfo e t c = (r, c')" and "\<forall>x. r \<noteq> Panic x"
  shows "(let local = (case r of Err x \<Rightarrow> Some x | _ \<Rightarrow> None);
              remote = task_err (taskH c' t)
          in ((local = None) = (remote = None) \<longrightarrow>
                applySorted e (t # ts) c = applySorted e ts c') \<and>
             ((local = None) \<noteq> (remote = None) \<and> local \<noteq> None \<and> ddlIgnoreError e local \<longrightarrow>
                applySorted e (t # ts) c = (Ok (), c')) \<and>
             ((local = None) \<noteq> (remote = None) \<and> \<not> (local \<noteq> None \<and> ddlIgnoreError e local) \<longrightarrow>
                (\<forall>p. tblInfo (taskH c' t) = Some p \<longrightarrow>
                   applySorted e (t # ts) c =
                     (Err (Divergence (task_sql (taskH c' t)) local remote
                             (tableDump e c' p)), c'))))"
proof (cases r)
  case (Ok u)
  then show ?thesis using assms(1) by (auto simp: Let_def debugPrintToString_def)
next
  case (Err x)
  then show ?thesis using assms(1) by (auto simp: Let_def debugPrintToString_def)
next
  case (Panic x)
  then show ?thesis using assms(2) by simp
qed

lemma dropIndex_local:
  "updateTableInfo plainEnv 0 dropIndexBatch = (Err (IndexNotExists ''t1'' ''ix''), dropIndexBatch)"
  by (simp add: apply_eval sort_eval dropIndexBatch_def)

text \<open>
  The theorem at the drop-index task: the applier reports the missing index, the server
  reported nothing, no error is ignorable, and the dispatcher returns the divergence
  error with the dump of the table.
\<close>

theorem applySorted_compare_witness:
  "updateTableInfo plainEnv 0 dropIndexBatch = (Err (IndexNotExists ''t1'' ''ix''), dropIndexBatch) \<and>
   task_err (taskH dropIndexBatch 0) = None \<and>
   applySorted plainEnv [0] dropIndexBatch =
     (Err (Divergence ''ALTER TABLE `t1` DROP INDEX `ix`'' (Some (IndexNotExists ''t1'' ''ix'')) None
             ''t1''), dropIndexBatch)"
proof -
  have remote: "task_err (taskH dropIndexBatch 0) = None"
    and tbl: "tblInfo (taskH dropIndexBatch 0) = Some 0"
    and stmt: "task_sql (taskH dropIndexBatch 0) = ''ALTER TABLE `t1` DROP INDEX `ix`''"
    and dump: "tableDump plainEnv dropIndexBatch 0 = ''t1''"
    and strict: "\<not> ddlIgnoreError plainEnv (Some (IndexNotExists ''t1'' ''ix''))"
    by (simp_all add: dropIndexBatch_def tableTask_def twoTables_def emptyCase_def plainEnv_def)
  have "\<forall>x. Err (IndexNotExists ''t1'' ''ix'') \<noteq> (Panic x :: unit res)" by simp
  from applySorted_compare[OF dropIndex_local this, of "[]"] remote tbl stmt dump strict
  show ?thesis using dropIndex_local by (simp add: Let_def)
qed

text \<open>
  Claim C1, as stated, fails: exactly one of the two errors is nil (the applier reports
  the missing index, the server accepted the statement), the local error is classified
  as ignorable, and the dispatcher returns no error at all.
\<close>

theorem execParaDDLSQL_ignored_counterexample:
  "fst (updateTableInfo lenientEnv 0 dropIndexBatch) = Err (IndexNotExists ''t1'' ''ix'') \<and>
   task_err (taskH (recordServerErrors lenientEnv accepted [0] dropIndexBatch) 0) = None \<and>
   fst (execParaDDLSQL lenientEnv accepted (Inr dropIndexHistory) [0] dropIndexBatch) = Ok ()"
  by (simp add: apply_eval sort_eval dropIndexBatch_def dropIndexHistory_def)

text \<open>
  The only error of the loop is the divergence error, and it is raised for a task of the
  batch at which exactly one of the two errors is nil.
\<close>

lemma applySorted_Err:
  "applySorted e ts c = (Err x, c') \<Longrightarrow>
   \<exists>t\<in>set ts. \<exists>local dump.
      x = Divergence (task_sql (taskH c' t)) local (task_err (taskH c' t)) dump \<and>
      (local = None) \<noteq> (task_err (taskH c' t) = None) \<and>
      \<not> (local \<noteq> None \<and> ddlIgnoreError e local)"
proof (induction ts arbitrary: c)
  case Nil
  then show ?case by simp
next
  case (Cons t ts)
  obtain r c1 where u: "updateTableInfo e t c = (r, c1)"
    by (cases "updateTableInfo e t c")
  let ?local = "case r of Err y \<Rightarrow> Some y | _ \<Rightarrow> None"
  let ?remote = "task_err (taskH c1 t)"
  have noPanic: "\<forall>y. r \<noteq> Panic y"
    using Cons.prems u by (cases r) auto
  show ?case
  proof (cases "(?local = None) = (?remote = None)")
    case True
    then have "applySorted e ts c1 = (Err x, c')"
      using Cons.prems u noPanic by (cases r) (auto simp: Let_def)
    from Cons.IH[OF this] show ?thesis by auto
  next
    case False
    have strict: "\<not> (?local \<noteq> None \<and> ddlIgnoreError e ?local)"
      using Cons.prems u noPanic False by (cases r) (auto simp: Let_def)
    obtain p where p: "tblInfo (taskH c1 t) = Some p"
      using Cons.prems u noPanic False strict
      by (cases r; cases "tblInfo (taskH c1 t)")
        (auto simp: Let_def debugPrintToString_def)
    have "c' = c1 \<and> x = Divergence (task_sql (taskH c1 t)) ?local ?remote (tableDump e c1 p)"
      using Cons.prems u noPanic False strict p
      by (cases r) (auto simp: Let_def debugPrintToString_def)
    then show ?thesis using False strict by auto
  qed
qed

text \<open>A diverging task without a table ends the dispatcher with a panic.\<close>

lemma applySorted_nil_table:
  assumes "updateTableInfo e t c = (r, c')" and "\<forall>x. r \<noteq> Panic x"
    and "((case r of Err x \<Rightarrow> Some x | _ \<Rightarrow> None) = None) \<noteq> (task_err (taskH c' t) = None)"
    and "\<not> ddlIgnoreError e (case r of Err x \<Rightarrow> Some x | _ \<Rightarrow> None)"
    and "tblInfo (taskH c' t) = None"
  shows "applySorted e (t # ts) c = (Panic NilPointerDereference, c')"
  using assms by (cases r) (auto simp: Let_def debugPrintToString_def)

text \<open>
  Claim C10 says that the divergence path is well defined for a task whose \<^verbatim>\<open>tblInfo\<close> is
  nil. The path calls \<^verbatim>\<open>task.tblInfo.debugPrintToString()\<close> without the nil check that the
  serial dispatcher and the logging a few lines above make: for a create-schema task
  that the server rejected and the applier accepted, the dispatcher panics.
\<close>

theorem execParaDDLSQL_schema_divergence:
  "fst (execParaDDLSQL plainEnv rejected (Inr schemaHistory) [0] schemaBatch) =
     Panic NilPointerDereference"
  by (simp add: apply_eval sort_eval schemaBatch_def schemaHistory_def)

text \<open>
  The serial dispatcher at the same task and the same server: its nil check sends it to
  the error without a dump. It panics only where an applier or a dump does.
\<close>

lemma execSerialDDLSQL_schema:
  "execSerialDDLSQL plainEnv rejected [0] schemaBatch =
     (Err (RemoteError (task_sql (taskH schemaBatch 0))
             (DBError ''Error 1273: Unknown collation'') None), schemaBatch)"
  by (simp add: apply_eval schemaBatch_def emptyCase_def)

lemma execSerialDDLSQL_nil_table:
  assumes "tblInfo (taskH c t) = None" and "serverErr t = Some err"
  shows "\<forall>x. fst (execSerialDDLSQL e serverErr (t # rest) c) \<noteq> Panic x"
  using assms by (simp add: execSerialDDLSQL_def Let_def)

subsection \<open>Appliers\<close>

lemma searchFrom_eq:
  "searchFrom P xs i none =
     (if \<exists>x\<in>set xs. P x then i + int (length (takeWhile (\<lambda>x. \<not> P x) xs)) else none)"
  by (induction xs arbitrary: i) auto

lemma searchFrom_found:
  "\<exists>x\<in>set xs. P x \<Longrightarrow>
     searchFrom P xs i none = i + int (length (takeWhile (\<lambda>x. \<not> P x) xs))"
  by (simp add: searchFrom_eq)

lemma searchFrom_missing: "\<forall>x\<in>set xs. \<not> P x \<Longrightarrow> searchFrom P xs i none = none"
  by (simp add: searchFrom_eq)





text \<open>
  The counter is a 64-bit \<^verbatim>\<open>int\<close>: its decrement is negative for every counter that is at
  most zero, except the least one, whose decrement wraps around to the greatest.
\<close>

lemma decrement_negative:
  "sint (x - 1 :: 64 word) < 0 \<longleftrightarrow> sint x \<le> 0 \<and> sint x \<noteq> - (2 ^ 63)"
proof -
  have r: "- (2 ^ 63) \<le> sint x" "sint x < 2 ^ 63"
    using sint_ge[of x] sint_lt[of x] by simp_all
  have "sint (x - 1) = signed_take_bit 63 (sint x - 1)"
    by (simp add: sint_word_ariths)
  also have "\<dots> = (if sint x = - (2 ^ 63) then 2 ^ 63 - 1 else sint x - 1)"
  proof (cases "sint x = - (2 ^ 63)")
    case True
    then show ?thesis by (simp add: signed_take_bit_eq_take_bit_shift take_bit_eq_mod)
  next
    case False
    then have "- (2 ^ 63) \<le> sint x - 1" "sint x - 1 < 2 ^ 63" using r by simp_all
    then have "signed_take_bit 63 (sint x - 1) = sint x - 1"
      by (simp add: signed_take_bit_int_eq_self)
    then show ?thesis using False by simp
  qed
  finally show ?thesis by auto
qed


lemmas applier_eval =
  dropIndexJob_def modifyColumnJob_def insertPositionAfter_def arraylistRemove_def
  arraylistInsert_def arraylistAdd_def plainEnv_def tableTask_def namedColumn_def
  emptyCase_def nullTask_def Let_def



text \<open>
  The error path at the table whose column \<^verbatim>\<open>a\<close> has the counter 0: the applier returns
  the error, the index stays in the list, and the counter stays decremented.
\<close>

lemma dropIndexJob_unreferenced:
  "fst (dropIndexJob plainEnv 0 unreferencedBatch) = Err (UnexpectedIndexReference ''a'') \<and>
   indexes (tblH (snd (dropIndexJob plainEnv 0 unreferencedBatch)) 0) = [0] \<and>
   sint (indexReferences (colH (snd (dropIndexJob plainEnv 0 unreferencedBatch)) 0)) = - 1"
  by (simp add: unreferencedBatch_def indexedBatch_def applier_eval)

text \<open>
  At the least value of the counter the decrement wraps around: the applier finds the
  greatest value, which is not negative, and removes the index.
\<close>

lemma dropIndexJob_least_counter:
  "sint (indexReferences (colH leastCounterBatch 0)) = - (2 ^ 63) \<and>
   fst (dropIndexJob plainEnv 0 leastCounterBatch) = Ok () \<and>
   sint (indexReferences (colH (snd (dropIndexJob plainEnv 0 leastCounterBatch)) 0)) = 2 ^ 63 - 1 \<and>
   indexes (tblH (snd (dropIndexJob plainEnv 0 leastCounterBatch)) 0) = []"
  by (simp add: leastCounterBatch_def indexedBatch_def applier_eval)

lemma take_drop_remove1:
  "distinct xs \<Longrightarrow> n < length xs \<Longrightarrow> take n xs @ drop (n + 1) xs = remove1 (xs ! n) xs"
proof (induction xs arbitrary: n)
  case Nil
  then show ?case by simp
next
  case (Cons x xs)
  show ?case
  proof (cases n)
    case 0
    then show ?thesis by simp
  next
    case (Suc m)
    then have "xs ! m \<noteq> x" using Cons.prems by auto
    then show ?thesis using Suc Cons by simp
  qed
qed

lemma arraylistRemove_at:
  "distinct xs \<Longrightarrow> 0 \<le> i \<Longrightarrow> nat i < length xs \<Longrightarrow>
     arraylistRemove i xs = remove1 (xs ! nat i) xs"
proof -
  assume d: "distinct xs" and i: "0 \<le> i" "nat i < length xs"
  then have "i < int (length xs)" by linarith
  then show ?thesis
    using take_drop_remove1[OF d i(2)] i(1) by (simp add: arraylistRemove_def)
qed

lemma arraylistInsert_split:
  "0 \<le> i \<Longrightarrow> nat i \<le> length xs \<Longrightarrow>
     arraylistInsert i v xs = take (nat i) xs @ v # drop (nat i) xs"
proof -
  assume i: "0 \<le> i" "nat i \<le> length xs"
  show ?thesis
  proof (cases "i < int (length xs)")
    case True
    then show ?thesis using i by (simp add: arraylistInsert_def)
  next
    case False
    then have "i = int (length xs)" using i by linarith
    then show ?thesis by (simp add: arraylistInsert_def)
  qed
qed

lemma concat_skip:
  "orig \<notin> set xs \<Longrightarrow> concat (map (\<lambda>y. if y = orig then [] else g y) xs) = concat (map g xs)"
  by (induction xs) auto

lemma concat_remove1:
  "distinct xs \<Longrightarrow>
     concat (map (\<lambda>y. if y = orig then [] else g y) xs) = concat (map g (remove1 orig xs))"
  by (induction xs) (auto simp: concat_skip)

lemma concat_singletons:
  "x \<notin> set ys \<Longrightarrow> concat (map (\<lambda>y. if y = x then [x, v] else [y]) ys) = ys"
  by (induction ys) auto

lemma concat_insert_after:
  "distinct ys \<Longrightarrow> x \<in> set ys \<Longrightarrow>
     concat (map (\<lambda>y. if y = x then [x, v] else [y]) ys) =
     take (Suc (length (takeWhile (\<lambda>y. y \<noteq> x) ys))) ys @
     v # drop (Suc (length (takeWhile (\<lambda>y. y \<noteq> x) ys))) ys"
  by (induction ys) (auto simp: concat_singletons)

lemma map_replace_nth:
  "distinct xs \<Longrightarrow> n < length xs \<Longrightarrow>
     map (\<lambda>y. if y = xs ! n then v else y) xs = take n xs @ v # drop (Suc n) xs"
proof -
  assume d: "distinct xs" and n: "n < length xs"
  have "map (\<lambda>y. if y = xs ! n then v else y) xs = xs[n := v]"
    using d n by (auto intro!: nth_equalityI simp: nth_list_update nth_eq_iff_index_eq)
  then show ?thesis using n by (simp add: upd_conv_take_nth_drop)
qed

lemma takeWhile_names:
  assumes "distinct (map f ys)" and "x \<in> set ys"
  shows "takeWhile (\<lambda>y. \<not> f y = f x) ys = takeWhile (\<lambda>y. y \<noteq> x) ys"
proof (rule takeWhile_cong[OF refl])
  fix y assume "y \<in> set ys"
  then show "(\<not> f y = f x) = (y \<noteq> x)"
    using assms by (auto simp: distinct_map inj_on_def)
qed

lemma takeWhile_before:
  "x \<in> set ys \<Longrightarrow> length (takeWhile (\<lambda>y. y \<noteq> x) ys) < length ys"
  by (induction ys) auto

text \<open>
  The applier where the recorded index is current. A modify-column task is applied by
  \<^verbatim>\<open>modifyColumnJob\<close> to a live table in which the original column still stands at its
  recorded index and the column names are distinct. The applier first removes the
  original column and then inserts
  the new one: at the front for FIRST, at the end for the last position, and for AFTER
  \<open>x\<close>, with \<open>x\<close> a column of the table, at the position found in the sequence after the
  removal, so that the result is the order before the task with the column moved right
  after \<open>x\<close>, or the unchanged order with the column replaced where it stands when \<open>x\<close> is
  the modified column itself.
\<close>

lemma modifyColumnJob_position:
  assumes tbl: "tblInfo (taskH c t) = Some tp"
    and arg: "task_arg (taskH c t) = ColumnJobArg i (Some orig) newCol strategy after"
    and live: "\<not> isTableDeleted e c tp" "\<not> isColumnDeleted e c orig tp"
    and idx: "0 \<le> i" "nat i < length (columns (tblH c tp))" "columns (tblH c tp) ! nat i = orig"
    and names: "distinct (map (\<lambda>p. col_name (colH c p)) (columns (tblH c tp)))"
  shows "(strategy = ddlTestAddDropColumnStrategyAtBeginning \<longrightarrow>
            modifyColumnJob e t c =
              (Ok (), c\<lparr>tblH := (tblH c)(tp := (tblH c tp)
                         \<lparr>columns := newCol # remove1 orig (columns (tblH c tp))\<rparr>)\<rparr>)) \<and>
         (strategy = ddlTestAddDropColumnStrategyAtEnd \<longrightarrow>
            modifyColumnJob e t c =
              (Ok (), c\<lparr>tblH := (tblH c)(tp := (tblH c tp)
                         \<lparr>columns := remove1 orig (columns (tblH c tp)) @ [newCol]\<rparr>)\<rparr>)) \<and>
         (strategy = ddlTestAddDropColumnStrategyAtRandom \<longrightarrow>
            (\<forall>x\<in>set (columns (tblH c tp)). after = Some x \<longrightarrow>
               modifyColumnJob e t c =
                 (Ok (), c\<lparr>tblH := (tblH c)(tp := (tblH c tp)
                            \<lparr>columns := columnMovedAfter orig newCol x (columns (tblH c tp))\<rparr>)\<rparr>)))"
proof -
  let ?cols = "columns (tblH c tp)"
  let ?ys = "remove1 orig ?cols"
  let ?name = "\<lambda>p. col_name (colH c p)"
  let ?n = "nat i"
  have d: "distinct ?cols" using names by (simp add: distinct_map)
  have inj: "inj_on ?name (set ?cols)" using names by (simp add: distinct_map)
  have removed: "arraylistRemove i ?cols = ?ys"
    using arraylistRemove_at[OF d idx(1,2)] idx(3) by simp
  have ys_split: "?ys = take ?n ?cols @ drop (?n + 1) ?cols"
    using take_drop_remove1[OF d idx(2)] idx(3) by simp
  have dys: "distinct ?ys" using d by simp
  have first: "arraylistInsert 0 newCol ?ys = newCol # ?ys"
    using arraylistInsert_split[of 0 ?ys newCol] by simp
  have beginning: "modifyColumnJob e t c =
      (Ok (), c\<lparr>tblH := (tblH c)(tp := (tblH c tp)\<lparr>columns := newCol # ?ys\<rparr>)\<rparr>)"
    if "strategy = ddlTestAddDropColumnStrategyAtBeginning"
    using that tbl arg live removed first by (simp add: modifyColumnJob_def Let_def)
  have ending: "modifyColumnJob e t c =
      (Ok (), c\<lparr>tblH := (tblH c)(tp := (tblH c tp)\<lparr>columns := ?ys @ [newCol]\<rparr>)\<rparr>)"
    if "strategy = ddlTestAddDropColumnStrategyAtEnd"
    using that tbl arg live removed by (simp add: modifyColumnJob_def Let_def arraylistAdd_def)
  have random: "modifyColumnJob e t c =
      (Ok (), c\<lparr>tblH := (tblH c)(tp := (tblH c tp)
                 \<lparr>columns := columnMovedAfter orig newCol x ?cols\<rparr>)\<rparr>)"
    if s: "strategy = ddlTestAddDropColumnStrategyAtRandom" and x: "x \<in> set ?cols"
      and a: "after = Some x" for x
  proof -
    let ?P = "\<lambda>col. ?name col = ?name x"
    have run: "modifyColumnJob e t c =
        (Ok (), c\<lparr>tblH := (tblH c)(tp := (tblH c tp)
           \<lparr>columns := arraylistInsert (searchFrom ?P ?ys 0 (i - 1) + 1) newCol ?ys\<rparr>)\<rparr>)"
      using s a tbl arg live removed
      by (simp add: modifyColumnJob_def Let_def insertPositionAfter_def)
    have "arraylistInsert (searchFrom ?P ?ys 0 (i - 1) + 1) newCol ?ys =
        columnMovedAfter orig newCol x ?cols"
    proof (cases "x = orig")
      case True
      have "\<forall>y\<in>set ?ys. \<not> ?P y"
      proof
        fix y assume y: "y \<in> set ?ys"
        then have "y \<noteq> orig" using d by auto
        moreover have "y \<in> set ?cols" using y by (meson notin_set_remove1)
        moreover have "orig \<in> set ?cols" using idx by auto
        ultimately show "\<not> ?P y" using inj True by (auto simp: inj_on_def)
      qed
      then have "searchFrom ?P ?ys 0 (i - 1) = i - 1" by (rule searchFrom_missing)
      moreover have "nat i \<le> length ?ys" using ys_split idx(2) by simp
      ultimately have "arraylistInsert (searchFrom ?P ?ys 0 (i - 1) + 1) newCol ?ys =
          take ?n ?ys @ newCol # drop ?n ?ys"
        using arraylistInsert_split[OF idx(1), of ?ys newCol] by simp
      also have "\<dots> = take ?n ?cols @ newCol # drop (Suc ?n) ?cols"
        using ys_split idx(2) by simp
      also have "\<dots> = map (\<lambda>y. if y = orig then newCol else y) ?cols"
        using map_replace_nth[OF d idx(2), of newCol] idx(3) by simp
      finally show ?thesis using True by (simp add: columnMovedAfter_def)
    next
      case False
      then have xin: "x \<in> set ?ys" using x by simp
      have dn: "distinct (map ?name ?ys)"
        using dys inj by (auto simp: distinct_map inj_on_def dest: notin_set_remove1)
      let ?m = "length (takeWhile (\<lambda>y. y \<noteq> x) ?ys)"
      have "\<exists>y\<in>set ?ys. ?P y" using xin by blast
      then have "searchFrom ?P ?ys 0 (i - 1) = int (length (takeWhile (\<lambda>y. \<not> ?P y) ?ys))"
        using searchFrom_found[of ?ys ?P 0 "i - 1"] by simp
      also have "takeWhile (\<lambda>y. \<not> ?P y) ?ys = takeWhile (\<lambda>y. y \<noteq> x) ?ys"
        using takeWhile_names[OF dn xin] by simp
      finally have pos: "searchFrom ?P ?ys 0 (i - 1) = int ?m" .
      have "?m < length ?ys"
        using xin by (rule takeWhile_before)
      then have "arraylistInsert (int ?m + 1) newCol ?ys =
          take (Suc ?m) ?ys @ newCol # drop (Suc ?m) ?ys"
        using arraylistInsert_split[of "int ?m + 1" ?ys newCol] by (simp add: nat_add_distrib)
      also have "\<dots> = concat (map (\<lambda>y. if y = x then [x, newCol] else [y]) ?ys)"
        using concat_insert_after[OF dys xin, of newCol] by simp
      also have "\<dots> = concat (map (\<lambda>y. if y = orig then [] else if y = x then [x, newCol] else [y]) ?cols)"
        using concat_remove1[OF d, of orig "\<lambda>y. if y = x then [x, newCol] else [y]"] by simp
      finally show ?thesis using pos False by (simp add: columnMovedAfter_def)
    qed
    then show ?thesis using run by simp
  qed
  show ?thesis using beginning ending random by blast
qed

text \<open>
  The lemma at \<^verbatim>\<open>t1(a, b, c)\<close>, modify \<^verbatim>\<open>b\<close> AFTER \<^verbatim>\<open>c\<close>: the order becomes \<^verbatim>\<open>a, c, b\<close>.
\<close>

lemma modifyColumnJob_position_example:
  "tblInfo (taskH modifyBatch 0) = Some 0 \<and>
   task_arg (taskH modifyBatch 0) =
     ColumnJobArg 1 (Some 12) 14 ddlTestAddDropColumnStrategyAtRandom (Some 13) \<and>
   \<not> isTableDeleted plainEnv modifyBatch 0 \<and>
   \<not> isColumnDeleted plainEnv modifyBatch 12 0 \<and>
   columns (tblH modifyBatch 0) ! nat 1 = 12 \<and>
   distinct (map (\<lambda>p. col_name (colH modifyBatch p)) (columns (tblH modifyBatch 0))) \<and>
   fst (modifyColumnJob plainEnv 0 modifyBatch) = Ok () \<and>
   columns (tblH (snd (modifyColumnJob plainEnv 0 modifyBatch)) 0) =
     columnMovedAfter 12 14 13 (columns (tblH modifyBatch 0)) \<and>
   columnMovedAfter 12 14 13 (columns (tblH modifyBatch 0)) = [11, 13, 14]"
proof -
  have h: "tblInfo (taskH modifyBatch 0) = Some 0"
    "task_arg (taskH modifyBatch 0) =
       ColumnJobArg 1 (Some 12) 14 ddlTestAddDropColumnStrategyAtRandom (Some 13)"
    "\<not> isTableDeleted plainEnv modifyBatch 0"
    "\<not> isColumnDeleted plainEnv modifyBatch 12 0"
    "(0::int) \<le> 1"
    "nat 1 < length (columns (tblH modifyBatch 0))"
    "columns (tblH modifyBatch 0) ! nat 1 = 12"
    "distinct (map (\<lambda>p. col_name (colH modifyBatch p)) (columns (tblH modifyBatch 0)))"
    by (simp_all add: modifyBatch_def applier_eval)
  have x: "13 \<in> set (columns (tblH modifyBatch 0))"
    by (simp add: modifyBatch_def applier_eval)
  have moved: "columnMovedAfter 12 14 13 (columns (tblH modifyBatch 0)) = [11, 13, 14]"
    by (simp add: modifyBatch_def applier_eval columnMovedAfter_def)
  from modifyColumnJob_position[OF h] x
  have "modifyColumnJob plainEnv 0 modifyBatch =
      (Ok (), modifyBatch\<lparr>tblH := (tblH modifyBatch)(0 := (tblH modifyBatch 0)
                \<lparr>columns := columnMovedAfter 12 14 13 (columns (tblH modifyBatch 0))\<rparr>)\<rparr>)"
    by blast
  then show ?thesis using h moved by simp
qed

text \<open>
  Claim C5 says that, for every modify-column task, the applier removes the original
  column and that AFTER \<open>x\<close> leaves the order before the task with the column moved right
  after \<open>x\<close>. The applier tests by name that the original column is still in the table and
  finds the AFTER column by name, but it removes whatever stands at the index recorded
  when the task was prepared. The table is \<^verbatim>\<open>t1(n, a, b, c)\<close>, the task modifies \<^verbatim>\<open>b\<close>,
  recorded at index 1, AFTER \<^verbatim>\<open>c\<close>, and the original column \<^verbatim>\<open>b\<close> is live in the table, at
  index 2: the applier succeeds, it has removed \<^verbatim>\<open>a\<close> and kept the original \<^verbatim>\<open>b\<close>, and the
  result \<^verbatim>\<open>n, b, c, b\<close> is not the order with \<^verbatim>\<open>b\<close> moved after \<^verbatim>\<open>c\<close>, which is \<^verbatim>\<open>n, a, c, b\<close>.
\<close>

theorem modifyColumnJob_stale_index:
  "task_arg (taskH staleBatch 0) =
     ColumnJobArg 1 (Some 12) 14 ddlTestAddDropColumnStrategyAtRandom (Some 13) \<and>
   columns (tblH staleBatch 0) = [10, 11, 12, 13] \<and>
   map (\<lambda>p. col_name (colH staleBatch p)) (columns (tblH staleBatch 0)) =
     [''n'', ''a'', ''b'', ''c''] \<and>
   \<not> isTableDeleted plainEnv staleBatch 0 \<and>
   \<not> isColumnDeleted plainEnv staleBatch 12 0 \<and>
   fst (modifyColumnJob plainEnv 0 staleBatch) = Ok () \<and>
   columns (tblH (snd (modifyColumnJob plainEnv 0 staleBatch)) 0) = [10, 12, 13, 14] \<and>
   columnMovedAfter 12 14 13 (columns (tblH staleBatch 0)) = [10, 11, 13, 14]"
  by (simp add: staleBatch_def modifyBatch_def applier_eval columnMovedAfter_def)

subsection \<open>Preparers\<close>

lemmas preparer_eval =
  prepareDropTable_def prepareDropColumn_def pickupRandomTable_def liveTables_def
  table_isDeleted_def table_setDeleted_def column_isDeleted_def column_setDeleted_def
  filterColumns_def predicateAll_def hasGenerateCol_def getColumnFromArrayList_def
  columnToDropIndexFor_def dropStrategy_def randIntn_def twoTables_def tableTask_def
  namedColumn_def emptyCase_def nullTask_def Let_def

lemma pickupRandomTable_live:
  "pickupRandomTable r c = Some p \<Longrightarrow> p \<in> set (liveTables c)"
  unfolding pickupRandomTable_def Let_def
  by (cases "liveTables c = []") auto

text \<open>
  Claim C8, as amended. \<^verbatim>\<open>prepareDropTable\<close> emits a task only when the map \<^verbatim>\<open>c.tables\<close> holds
  more than one entry, tombstoned tables that no applier has removed yet included, and
  a live table was picked; the task drops that table, which is then marked deleted.
  When the map holds at most one entry, or when no table is live, it emits no task and
  leaves the catalog unchanged.
\<close>

theorem prepareDropTable_guard:
  "(length (tables c) \<le> 1 \<longrightarrow> prepareDropTable r c = (Ok None, c)) \<and>
   (liveTables c = [] \<longrightarrow> prepareDropTable r c = (Ok None, c)) \<and>
   (\<forall>task c'. prepareDropTable r c = (Ok (Some task), c') \<longrightarrow>
      1 < length (tables c) \<and>
      (\<exists>p. p \<in> set (liveTables c) \<and> tblInfo task = Some p \<and> task_k task = ddlDropTable \<and>
           c' = table_setDeleted p c))"
proof -
  have few: "prepareDropTable r c = (Ok None, c)" if "length (tables c) \<le> 1"
    using that by (simp add: prepareDropTable_def Let_def)
  have none: "prepareDropTable r c = (Ok None, c)" if "liveTables c = []"
    using that by (simp add: prepareDropTable_def pickupRandomTable_def Let_def)
  have emit: "1 < length (tables c) \<and>
      (\<exists>p. p \<in> set (liveTables c) \<and> tblInfo task = Some p \<and> task_k task = ddlDropTable \<and>
           c' = table_setDeleted p c)"
    if run: "prepareDropTable r c = (Ok (Some task), c')" for task c'
  proof -
    have many: "\<not> length (tables c) \<le> 1"
      using run few by (cases "length (tables c) \<le> 1") simp_all
    obtain p where p: "pickupRandomTable r c = Some p"
      using run many by (cases "pickupRandomTable r c") (simp_all add: prepareDropTable_def Let_def)
    have "p \<in> set (liveTables c)" using p by (rule pickupRandomTable_live)
    moreover have "tblInfo task = Some p \<and> task_k task = ddlDropTable \<and> c' = table_setDeleted p c"
      using run many p by (auto simp: prepareDropTable_def Let_def)
    ultimately show ?thesis using many by auto
  qed
  show ?thesis using few none emit by blast
qed

text \<open>
  The theorem at the catalog of two live tables: the preparer emits the task that drops
  the first one and marks it deleted.
\<close>

theorem prepareDropTable_guard_witness:
  "fst (prepareDropTable 0 twoTables) =
     Ok (Some (tableTask ddlDropTable 0 ''DROP TABLE `t1`'' ArgNil)) \<and>
   1 < length (tables twoTables) \<and>
   snd (prepareDropTable 0 twoTables) = table_setDeleted 0 twoTables"
proof -
  have run: "prepareDropTable 0 twoTables =
      (Ok (Some (tableTask ddlDropTable 0 ''DROP TABLE `t1`'' ArgNil)),
       snd (prepareDropTable 0 twoTables))"
    by (simp add: preparer_eval prod_eq_iff)
  from prepareDropTable_guard[of twoTables 0] run
  have "1 < length (tables twoTables) \<and>
      (\<exists>p. tblInfo (tableTask ddlDropTable 0 ''DROP TABLE `t1`'' ArgNil) = Some p \<and>
           snd (prepareDropTable 0 twoTables) = table_setDeleted p twoTables)"
    by blast
  then show ?thesis using run by (auto simp: tableTask_def)
qed

text \<open>
  Claim C8, as stated, fails: of the two entries of \<^verbatim>\<open>c.tables\<close> one is tombstoned, so a
  single table is live, and the preparer emits the task that drops it; no live table is
  left.
\<close>

theorem prepareDropTable_last_live_counterexample:
  "liveTables tombstoneCase = [1] \<and>
   fst (prepareDropTable 0 tombstoneCase) =
     Ok (Some (tableTask ddlDropTable 1 ''DROP TABLE `t2`'' ArgNil)) \<and>
   liveTables (snd (prepareDropTable 0 tombstoneCase)) = []"
  by (simp add: tombstoneCase_def preparer_eval)

text \<open>
  Claim C4. For a table that the preparer picked: when the table has at most one live
  column (the column in question is the last remaining one), or when the column that
  the strategy selects is a primary-key column, has generated-column dependents, or has
  a positive index reference count, \<^verbatim>\<open>prepareDropColumn\<close> returns with no task and the
  catalog as it was, so that the column is not marked deleted.
\<close>

theorem prepareDropColumn_protection:
  assumes "pickupRandomTable rTable c = Some p"
  shows "(length (filterColumns predicateAll c p) \<le> 1 \<longrightarrow>
            prepareDropColumn rTable rStrategy rColumn c = (Ok None, c)) \<and>
         (\<forall>i col.
            columnToDropIndexFor (dropStrategy rStrategy) rColumn (columns (tblH c p)) = Ok i \<longrightarrow>
            getColumnFromArrayList (columns (tblH c p)) i = Ok col \<longrightarrow>
            isPrimaryKey (colH c col) \<or> hasGenerateCol c col \<or> 0 < sint (indexReferences (colH c col)) \<longrightarrow>
            prepareDropColumn rTable rStrategy rColumn c = (Ok None, c))"
proof -
  have last: "prepareDropColumn rTable rStrategy rColumn c = (Ok None, c)"
    if "length (filterColumns predicateAll c p) \<le> 1"
    using that assms by (simp add: prepareDropColumn_def)
  have protected: "prepareDropColumn rTable rStrategy rColumn c = (Ok None, c)"
    if "columnToDropIndexFor (dropStrategy rStrategy) rColumn (columns (tblH c p)) = Ok i"
      and "getColumnFromArrayList (columns (tblH c p)) i = Ok col"
      and "isPrimaryKey (colH c col) \<or> hasGenerateCol c col \<or> 0 < sint (indexReferences (colH c col))"
    for i col
    using that assms by (auto simp: prepareDropColumn_def Let_def)
  show ?thesis using last protected by blast
qed

text \<open>
  The theorem at the table \<^verbatim>\<open>t1(a, b)\<close> with the index \<^verbatim>\<open>ix(a)\<close>: the strategy selects \<^verbatim>\<open>a\<close>,
  whose index reference count is 1; no task is emitted and the count is still 1.
\<close>

theorem prepareDropColumn_protection_witness:
  "pickupRandomTable 0 indexedBatch = Some 0 \<and>
   columnToDropIndexFor (dropStrategy 0) 0 (columns (tblH indexedBatch 0)) = Ok 0 \<and>
   getColumnFromArrayList (columns (tblH indexedBatch 0)) 0 = Ok 0 \<and>
   0 < sint (indexReferences (colH indexedBatch 0)) \<and>
   prepareDropColumn 0 0 0 indexedBatch = (Ok None, indexedBatch) \<and>
   indexReferences (colH indexedBatch 0) = 1 \<and>
   col_deleted (colH indexedBatch 0) = 0"
proof -
  have h: "pickupRandomTable 0 indexedBatch = Some 0"
    and i: "columnToDropIndexFor (dropStrategy 0) 0 (columns (tblH indexedBatch 0)) = Ok 0"
    and col: "getColumnFromArrayList (columns (tblH indexedBatch 0)) 0 = Ok 0"
    and refs: "indexReferences (colH indexedBatch 0) = 1"
    and flag: "col_deleted (colH indexedBatch 0) = 0"
    by (simp_all add: indexedBatch_def preparer_eval)
  from prepareDropColumn_protection[OF h, of 0 0] i col refs
  have "prepareDropColumn 0 0 0 indexedBatch = (Ok None, indexedBatch)"
    by simp
  then show ?thesis using h i col refs flag by simp
qed

text \<open>
  The other guards: a primary-key column, and the last live column of a table whose
  other column is tombstoned. With \<^verbatim>\<open>b\<close> selected in the table \<^verbatim>\<open>t1(a, b)\<close> with the index
  \<^verbatim>\<open>ix(a)\<close>, the preparer emits the task and marks \<^verbatim>\<open>b\<close> deleted.
\<close>

lemma prepareDropColumn_primary_key:
  "prepareDropColumn 0 0 0 keyColumnCase = (Ok None, keyColumnCase)"
  by (simp add: keyColumnCase_def indexedBatch_def preparer_eval)

lemma prepareDropColumn_last_column:
  "filterColumns predicateAll lastColumnCase 0 = [1] \<and>
   prepareDropColumn 0 1 0 lastColumnCase = (Ok None, lastColumnCase)"
  by (simp add: lastColumnCase_def indexedBatch_def preparer_eval)

lemma prepareDropColumn_unprotected:
  "fst (prepareDropColumn 0 1 0 indexedBatch) =
     Ok (Some (tableTask ddlDropColumn 0 ''ALTER TABLE `t1` DROP COLUMN `b`''
                (ColumnJobArg 0 None 1 ddlTestAddDropColumnStrategyAtEnd None))) \<and>
   col_deleted (colH (snd (prepareDropColumn 0 1 0 indexedBatch)) 1) = 1"
  by (simp add: indexedBatch_def preparer_eval)

text \<open>
  A task that \<^verbatim>\<open>prepareDropColumn\<close> emits names a column of the table that is none of the
  protected ones, and the table has more than one live column.
\<close>

lemma prepareDropColumn_emits:
  assumes "prepareDropColumn rTable rStrategy rColumn c = (Ok (Some task), c')"
  shows "\<exists>p col. tblInfo task = Some p \<and> p \<in> set (liveTables c) \<and>
           task_arg task = ColumnJobArg 0 None col (dropStrategy rStrategy) None \<and>
           col \<in> set (columns (tblH c p)) \<and>
           \<not> isPrimaryKey (colH c col) \<and> \<not> hasGenerateCol c col \<and>
           \<not> 0 < sint (indexReferences (colH c col)) \<and>
           1 < length (filterColumns predicateAll c p) \<and>
           c' = column_setDeleted col c"
proof -
  obtain p where p: "pickupRandomTable rTable c = Some p"
    using assms by (cases "pickupRandomTable rTable c") (simp_all add: prepareDropColumn_def)
  have many: "\<not> length (filterColumns predicateAll c p) \<le> 1"
    using assms p by (cases "length (filterColumns predicateAll c p) \<le> 1")
      (simp_all add: prepareDropColumn_def)
  obtain i where i: "columnToDropIndexFor (dropStrategy rStrategy) rColumn (columns (tblH c p)) = Ok i"
    using assms p many
    by (cases "columnToDropIndexFor (dropStrategy rStrategy) rColumn (columns (tblH c p))")
      (simp_all add: prepareDropColumn_def Let_def)
  obtain col where col: "getColumnFromArrayList (columns (tblH c p)) i = Ok col"
    using assms p many i
    by (cases "getColumnFromArrayList (columns (tblH c p)) i")
      (simp_all add: prepareDropColumn_def Let_def)
  have mem: "col \<in> set (columns (tblH c p))"
    using col by (auto simp: getColumnFromArrayList_def split: if_splits)
  have "tblInfo task = Some p \<and>
      task_arg task = ColumnJobArg 0 None col (dropStrategy rStrategy) None \<and>
      \<not> isPrimaryKey (colH c col) \<and> \<not> hasGenerateCol c col \<and>
      \<not> 0 < sint (indexReferences (colH c col)) \<and> c' = column_setDeleted col c"
    using assms p many i col by (auto simp: prepareDropColumn_def Let_def split: if_splits)
  then show ?thesis using pickupRandomTable_live[OF p] mem many by auto
qed

end
